theory Spec2Isabelle
  imports Main
begin

section \<open>Python values used by the two scripts\<close>

subsection \<open>Strings\<close>

text \<open>
  A string is the list of the bytes of its text in UTF-8, so an ASCII character is one
  byte below 128 and every other character a run of bytes from 128 on. What
  \<open>str.lower\<close> and \<open>int\<close> make of a text with such characters depends on the Unicode
  tables of the interpreter, which are no part of the scripts: these functions take
  that part as an argument, and are written out for pure ASCII texts.
\<close>

definition is_ascii :: "string \<Rightarrow> bool" where
  "is_ascii s = list_all (\<lambda>c. (of_char c :: nat) < 128) s"

definition is_space :: "char \<Rightarrow> bool" where
  "is_space c = (c \<in> set [CHR '' '', CHR 0x09, CHR 0x0A, CHR 0x0B, CHR 0x0C, CHR 0x0D,
                          CHR 0x1C, CHR 0x1D, CHR 0x1E, CHR 0x1F])"

text \<open>\<open>s.strip()\<close>\<close>

definition strip :: "string \<Rightarrow> string" where
  "strip s = rev (dropWhile is_space (rev (dropWhile is_space s)))"

text \<open>\<open>s.split(c)\<close> for a one-character separator: never the empty list.\<close>

fun split_on :: "char \<Rightarrow> string \<Rightarrow> string list" where
  "split_on c [] = [[]]"
| "split_on c (x # xs) =
     (if x = c then [] # split_on c xs
      else (case split_on c xs of [] \<Rightarrow> [[x]] | w # ws \<Rightarrow> (x # w) # ws))"

text \<open>\<open>sep.join(parts)\<close>\<close>

fun join_with :: "string \<Rightarrow> string list \<Rightarrow> string" where
  "join_with sep [] = []"
| "join_with sep [x] = x"
| "join_with sep (x # y # r) = x @ sep @ join_with sep (y # r)"

text \<open>\<open>s.lower()\<close> and \<open>s.replace(c, '')\<close>\<close>

definition lower_char :: "char \<Rightarrow> char" where
  "lower_char c =
     (case map_of (zip ''ABCDEFGHIJKLMNOPQRSTUVWXYZ'' ''abcdefghijklmnopqrstuvwxyz'') c of
        None \<Rightarrow> c | Some d \<Rightarrow> d)"

definition lower :: "(string \<Rightarrow> string) \<Rightarrow> string \<Rightarrow> string" where
  "lower other s = (if is_ascii s then map lower_char s else other s)"

definition remove_char :: "char \<Rightarrow> string \<Rightarrow> string" where
  "remove_char c s = filter (\<lambda>x. x \<noteq> c) s"

subsection \<open>Integers read from and written to text\<close>

definition digit_val :: "char \<Rightarrow> nat option" where
  "digit_val c = map_of (zip ''0123456789'' [0, 1, 2, 3, 4, 5, 6, 7, 8, 9]) c"

text \<open>
  The digits of a decimal literal after its first digit: a single underscore may stand
  between two digits, as \<open>int\<close> allows.
\<close>

fun dec_digits :: "nat \<Rightarrow> string \<Rightarrow> nat option" where
  "dec_digits acc [] = Some acc"
| "dec_digits acc [c] =
     (case digit_val c of None \<Rightarrow> None | Some v \<Rightarrow> Some (10 * acc + v))"
| "dec_digits acc (c # d # r) =
     (if c = CHR ''_''
      then (case digit_val d of None \<Rightarrow> None | Some v \<Rightarrow> dec_digits (10 * acc + v) r)
      else (case digit_val c of None \<Rightarrow> None | Some v \<Rightarrow> dec_digits (10 * acc + v) (d # r)))"

definition dec_literal :: "string \<Rightarrow> nat option" where
  "dec_literal s =
     (case s of [] \<Rightarrow> None
      | c # r \<Rightarrow> (case digit_val c of None \<Rightarrow> None | Some v \<Rightarrow> dec_digits v r))"

definition is_digit :: "char \<Rightarrow> bool" where
  "is_digit c = (digit_val c \<noteq> None)"

definition digit_of :: "char \<Rightarrow> nat" where
  "digit_of c = (case digit_val c of None \<Rightarrow> 0 | Some v \<Rightarrow> v)"

text \<open>
  The white space that \<open>int\<close> skips around an ASCII literal: space, tab, line feed,
  vertical tab, form feed and carriage return. The separators \<open>0x1C\<close> to \<open>0x1F\<close>,
  which \<open>str.strip\<close> removes, are none of it.
\<close>

definition int_space :: "char \<Rightarrow> bool" where
  "int_space c = (c \<in> set [CHR '' '', CHR 0x09, CHR 0x0A, CHR 0x0B, CHR 0x0C, CHR 0x0D])"

definition int_strip :: "string \<Rightarrow> string" where
  "int_strip s = rev (dropWhile int_space (rev (dropWhile int_space s)))"

text \<open>
  \<open>int(s)\<close> for a pure ASCII text: white space around the literal is dropped, one
  sign is allowed, and a literal of more than 640 digits is refused when it has more
  digits than the limit \<open>max_digits\<close> (0 stands for no limit). \<open>None\<close> stands for
  \<open>ValueError\<close>.
\<close>

definition ascii_int :: "nat \<Rightarrow> string \<Rightarrow> int option" where
  "ascii_int max_digits s =
     (case int_strip s of
        [] \<Rightarrow> None
      | c # r \<Rightarrow>
          (let body = (if c = CHR ''-'' \<or> c = CHR ''+'' then r else c # r);
               digits = length (filter is_digit body)
           in case dec_literal body of
                None \<Rightarrow> None
              | Some n \<Rightarrow>
                  if 640 < digits \<and> 0 < max_digits \<and> max_digits < digits then None
                  else Some (if c = CHR ''-'' then - int n else int n)))"

text \<open>\<open>int(s)\<close>; \<open>other\<close> is what \<open>int\<close> makes of a text that is not pure ASCII.\<close>

definition py_int :: "(string \<Rightarrow> int option) \<Rightarrow> nat \<Rightarrow> string \<Rightarrow> int option" where
  "py_int other max_digits s = (if is_ascii s then ascii_int max_digits s else other s)"

definition digit_char :: "nat \<Rightarrow> char" where
  "digit_char n = (''0123456789'' ! (n mod 10))"

text \<open>The last \<open>k\<close> decimal digits of \<open>n\<close>, padded with zeros (\<open>%02d\<close>, \<open>%04d\<close>).\<close>

fun zero_pad :: "nat \<Rightarrow> nat \<Rightarrow> string" where
  "zero_pad 0 n = []"
| "zero_pad (Suc k) n = zero_pad k (n div 10) @ [digit_char n]"

subsection \<open>Paths\<close>

text \<open>
  An absolute, normalised path, as \<open>os.path.abspath\<close> returns it, is the list of its
  components below the root; the root directory is the empty list. A path given by the
  user or on the command line is a string.
\<close>

type_synonym path = "string list"

definition isabs :: "string \<Rightarrow> bool" where
  "isabs s = (case s of [] \<Rightarrow> False | c # _ \<Rightarrow> c = CHR ''/'')"

text \<open>
  \<open>os.path.normpath\<close> on the components of an absolute path: empty components and
  \<open>.\<close> are dropped, \<open>..\<close> removes the component before it and is dropped at the root.
\<close>

definition normpath :: "string list \<Rightarrow> path" where
  "normpath comps =
     foldl (\<lambda>acc c. if c = [] \<or> c = ''.'' then acc
                     else if c = ''..'' then butlast acc
                     else acc @ [c]) [] comps"

definition render :: "path \<Rightarrow> string" where
  "render p = CHR ''/'' # join_with ''/'' p"

definition dirname :: "path \<Rightarrow> path" where
  "dirname p = butlast p"

definition basename :: "path \<Rightarrow> string" where
  "basename p = (if p = [] then [] else last p)"

definition path_join :: "path \<Rightarrow> string \<Rightarrow> path" where
  "path_join p name = p @ [name]"

fun commonprefix_len :: "'a list \<Rightarrow> 'a list \<Rightarrow> nat" where
  "commonprefix_len (x # xs) (y # ys) = (if x = y then Suc (commonprefix_len xs ys) else 0)"
| "commonprefix_len _ _ = 0"

text \<open>\<open>os.path.relpath(p, start)\<close> for two absolute, normalised paths.\<close>

definition relpath :: "path \<Rightarrow> path \<Rightarrow> string" where
  "relpath p start =
     (let i = commonprefix_len start p;
          rel_list = replicate (length start - i) ''..'' @ drop i p
      in if rel_list = [] then ''.'' else join_with ''/'' rel_list)"

subsection \<open>Dates and times\<close>

record date =
  year :: nat
  month :: nat
  day :: nat

record datetime = date +
  hour :: nat
  minute :: nat
  second :: nat
  microsecond :: nat

definition is_leap :: "nat \<Rightarrow> bool" where
  "is_leap y = (y mod 4 = 0 \<and> (y mod 100 \<noteq> 0 \<or> y mod 400 = 0))"

definition days_in_month :: "nat \<Rightarrow> nat \<Rightarrow> nat" where
  "days_in_month y m =
     (if m = 2 then (if is_leap y then 29 else 28)
      else if m \<in> set [4, 6, 9, 11] then 30 else 31)"

definition valid_date :: "nat \<Rightarrow> nat \<Rightarrow> nat \<Rightarrow> bool" where
  "valid_date y m d =
     (1 \<le> y \<and> y \<le> 9999 \<and> 1 \<le> m \<and> m \<le> 12 \<and> 1 \<le> d \<and> d \<le> days_in_month y m)"

definition date_lt :: "('a date_scheme) \<Rightarrow> ('b date_scheme) \<Rightarrow> bool" where
  "date_lt a b =
     (year a < year b \<or> (year a = year b \<and>
        (month a < month b \<or> (month a = month b \<and> day a < day b))))"

definition time_lt :: "datetime \<Rightarrow> datetime \<Rightarrow> bool" where
  "time_lt a b =
     (hour a < hour b \<or> (hour a = hour b \<and>
        (minute a < minute b \<or> (minute a = minute b \<and>
           (second a < second b \<or> (second a = second b \<and> microsecond a < microsecond b))))))"

definition datetime_lt :: "datetime \<Rightarrow> datetime \<Rightarrow> bool" where
  "datetime_lt a b =
     (date_lt a b \<or> (year a = year b \<and> month a = month b \<and> day a = day b \<and> time_lt a b))"

text \<open>\<open>dt.date()\<close>\<close>

definition date_of :: "datetime \<Rightarrow> date" where
  "date_of dt = \<lparr>year = year dt, month = month dt, day = day dt\<rparr>"

text \<open>\<open>datetime.combine(d, datetime.min.time().replace(hour=h, minute=m))\<close>\<close>

definition combine :: "date \<Rightarrow> nat \<Rightarrow> nat \<Rightarrow> datetime" where
  "combine d h m =
     \<lparr>year = year d, month = month d, day = day d,
      hour = h, minute = m, second = 0, microsecond = 0\<rparr>"

text \<open>The \<open>strftime\<close> formats of the scripts, and \<open>str(dt)\<close> for a whole second.\<close>

definition fmt_ymdhm :: "datetime \<Rightarrow> string" where
  "fmt_ymdhm dt =
     zero_pad 4 (year dt) @ zero_pad 2 (month dt) @ zero_pad 2 (day dt)
     @ zero_pad 2 (hour dt) @ zero_pad 2 (minute dt)"

definition fmt_ymd_hm :: "datetime \<Rightarrow> string" where
  "fmt_ymd_hm dt =
     zero_pad 4 (year dt) @ zero_pad 2 (month dt) @ zero_pad 2 (day dt) @ ''_''
     @ zero_pad 2 (hour dt) @ zero_pad 2 (minute dt)"

definition fmt_iso :: "datetime \<Rightarrow> string" where
  "fmt_iso dt =
     zero_pad 4 (year dt) @ ''-'' @ zero_pad 2 (month dt) @ ''-'' @ zero_pad 2 (day dt) @ '' ''
     @ zero_pad 2 (hour dt) @ '':'' @ zero_pad 2 (minute dt) @ '':'' @ zero_pad 2 (second dt)"

section \<open>The process and its surroundings\<close>

datatype exn =
    FileNotFoundError
  | NotADirectoryError
  | IsADirectoryError
  | FileExistsError
  | PermissionError
  | CalledProcessError int
  | ValueError
  | EOFError

text \<open>The job definition that \<open>plistlib.dump\<close> writes.\<close>

record calendar_interval =
  Month :: nat
  Day :: nat
  Hour :: nat
  Minute :: nat

record plist =
  Label :: string
  ProgramArguments :: "string list"
  StartCalendarInterval :: calendar_interval
  StandardOutPath :: string
  StandardErrorPath :: string
  RunAtLoad :: bool

text \<open>
  A file holds a job definition, or something else (\<open>None\<close>).
\<close>

datatype node = Dir | File "plist option"

text \<open>\<open>subprocess.CompletedProcess\<close>: exit status, captured output and error text.\<close>

record proc =
  returncode :: int
  proc_stdout :: string
  proc_stderr :: string

text \<open>
  The state of the process and of the machine around it. \<open>ext\<close> is the state of the
  external tools (the repositories that git manages); \<open>clock\<close> gives the successive
  readings of \<open>datetime.now()\<close>, \<open>tick\<close> counts the readings made so far; \<open>calls\<close>
  records every command line started.

  The file tree has directories and files and no symbolic links. \<open>searchable\<close> says
  which directories the process may search and enter; \<open>kernel_error\<close> gives the error,
  if any, with which the kernel refuses a path for a reason that the tree does not show
  (a name that is too long, an input or output error).

  The last four fields belong to the interpreter and its library, which the scripts use
  and do not contain: the limit of \<open>int\<close> on the number of digits
  (\<open>sys.get_int_max_str_digits()\<close>, 0 for none), what \<open>str.lower\<close> and \<open>int\<close> make of a
  text that is not pure ASCII, and the error, if any, with which \<open>plistlib.dump\<close>
  refuses a job definition for a reason other than a control character.
\<close>

record 'g world =
  cwd :: path
  home :: path
  fs :: "path \<Rightarrow> node option"
  searchable :: "path \<Rightarrow> bool"
  kernel_error :: "string \<Rightarrow> exn option"
  int_max_str_digits :: nat
  unicode_lower :: "string \<Rightarrow> string"
  unicode_int :: "string \<Rightarrow> int option"
  dump_error :: "plist \<Rightarrow> exn option"
  ext :: 'g
  clock :: "nat \<Rightarrow> datetime"
  tick :: nat
  stdin :: "string list"
  stdout :: "string list"
  stderr :: "string list"
  calls :: "string list list"

text \<open>
  An external command: its arguments, the directory it starts in, and the state of the
  external tools. \<open>Inl\<close> is the exception of a command that could not be started.
\<close>

type_synonym 'g runner = "string list \<Rightarrow> path \<Rightarrow> 'g \<Rightarrow> (exn + proc) \<times> 'g"

definition node_at :: "'g world \<Rightarrow> path \<Rightarrow> node option" where
  "node_at w p = (if p = [] then Some Dir else fs w p)"

definition path_exists :: "'g world \<Rightarrow> path \<Rightarrow> bool" where
  "path_exists w p = (node_at w p \<noteq> None)"

definition isdir :: "'g world \<Rightarrow> path \<Rightarrow> bool" where
  "isdir w p = (node_at w p = Some Dir)"

text \<open>\<open>os.path.abspath(s)\<close>\<close>

definition abspath :: "'g world \<Rightarrow> string \<Rightarrow> path" where
  "abspath w s = normpath ((if isabs s then [] else cwd w) @ split_on CHR ''/'' s)"

text \<open>\<open>print(line)\<close> and \<open>print(line, file=sys.stderr)\<close>\<close>

definition print :: "string \<Rightarrow> 'g world \<Rightarrow> 'g world" where
  "print line w = w\<lparr>stdout := stdout w @ [line]\<rparr>"

definition eprint :: "string \<Rightarrow> 'g world \<Rightarrow> 'g world" where
  "eprint line w = w\<lparr>stderr := stderr w @ [line]\<rparr>"

text \<open>\<open>datetime.now()\<close>\<close>

definition now :: "'g world \<Rightarrow> datetime \<times> 'g world" where
  "now w = (clock w (tick w), w\<lparr>tick := Suc (tick w)\<rparr>)"

text \<open>
  The kernel resolves a path one component after the other, from the root or from the
  current directory: every component but an empty one is looked up in a directory that
  exists and may be searched; \<open>..\<close> leads to the parent, and from the root to the root.
  So \<open>/gone/..\<close> is an error when \<open>/gone\<close> does not exist, although
  \<open>os.path.abspath\<close> makes \<open>/\<close> of it.
\<close>

fun walk :: "'g world \<Rightarrow> path \<Rightarrow> string list \<Rightarrow> exn + path" where
  "walk w p [] = Inr p"
| "walk w p (c # cs) =
     (if c = [] then walk w p cs
      else
        (case node_at w p of
           None \<Rightarrow> Inl FileNotFoundError
         | Some (File x) \<Rightarrow> Inl NotADirectoryError
         | Some Dir \<Rightarrow>
             if \<not> searchable w p then Inl PermissionError
             else if c = ''.'' then walk w p cs
             else if c = ''..'' then walk w (butlast p) cs
             else walk w (p @ [c]) cs))"

definition resolve :: "'g world \<Rightarrow> string \<Rightarrow> exn + path" where
  "resolve w s = walk w (if isabs s then [] else cwd w) (split_on CHR ''/'' s)"

text \<open>
  \<open>os.chdir(s)\<close>: the empty path is no directory, a path with a null character is
  refused before the kernel sees it, and the path has to resolve to a directory that
  the process may enter. A failure leaves the process as it is.
\<close>

definition os_chdir :: "string \<Rightarrow> 'g world \<Rightarrow> exn + 'g world" where
  "os_chdir s w =
     (if s = [] then Inl FileNotFoundError
      else if CHR 0x00 \<in> set s then Inl ValueError
      else
        (case kernel_error w s of
           Some e \<Rightarrow> Inl e
         | None \<Rightarrow>
             (case resolve w s of
                Inl e \<Rightarrow> Inl e
              | Inr p \<Rightarrow>
                  (case node_at w p of
                     None \<Rightarrow> Inl FileNotFoundError
                   | Some (File x) \<Rightarrow> Inl NotADirectoryError
                   | Some Dir \<Rightarrow>
                       if \<not> searchable w p then Inl PermissionError
                       else Inr (w\<lparr>cwd := p\<rparr>)))))"

text \<open>\<open>subprocess.run(argv, capture_output=True)\<close>\<close>

definition subprocess_run :: "'g runner \<Rightarrow> string list \<Rightarrow> 'g world \<Rightarrow> (exn + proc) \<times> 'g world" where
  "subprocess_run run argv w =
     (case run argv (cwd w) (ext w) of
        (r, g) \<Rightarrow> (r, w\<lparr>ext := g, calls := calls w @ [argv]\<rparr>))"

section \<open>The repository resolver\<close>

text \<open>
  \<open>find_git_repo\<close>: the loop walks from \<open>current\<close> towards the root and stops, without
  looking there, once \<open>current\<close> is its own parent.
\<close>

function find_git_repo_loop :: "'g world \<Rightarrow> path \<Rightarrow> path option" where
  "find_git_repo_loop w current =
     (if current \<noteq> dirname current
      then (if path_exists w (path_join current ''.git'') then Some current
            else find_git_repo_loop w (dirname current))
      else None)"
  by pat_completeness auto
termination
proof (relation "measure (\<lambda>(w, current). length current)")
  fix w :: "'g world" and current :: path
  assume "current \<noteq> dirname current"
  then have "current \<noteq> []"
    by (auto simp: dirname_def)
  then show "((w, dirname current), (w, current)) \<in> measure (\<lambda>(w, current). length current)"
    by (simp add: dirname_def)
qed simp

declare find_git_repo_loop.simps [simp del]

definition find_git_repo :: "'g world \<Rightarrow> string \<Rightarrow> path option" where
  "find_git_repo w p = find_git_repo_loop w (abspath w p)"

text \<open>
  \<open>r\<close> is the nearest ancestor of \<open>current\<close> (\<open>current\<close> included, the root
  directory excluded) that contains the repository metadata \<open>.git\<close>.
\<close>

definition nearest_repo :: "'g world \<Rightarrow> path \<Rightarrow> path \<Rightarrow> bool" where
  "nearest_repo w current r =
     (\<exists>n. 0 < n \<and> n \<le> length current \<and> r = take n current \<and>
          path_exists w (path_join r ''.git'') \<and>
          (\<forall>m. n < m \<and> m \<le> length current \<longrightarrow>
               \<not> path_exists w (path_join (take m current) ''.git'')))"

section \<open>The commit operation\<close>

definition exn_text :: "exn \<Rightarrow> string" where
  "exn_text e =
     (case e of
        FileNotFoundError \<Rightarrow> ''[Errno 2] No such file or directory''
      | NotADirectoryError \<Rightarrow> ''[Errno 20] Not a directory''
      | IsADirectoryError \<Rightarrow> ''[Errno 21] Is a directory''
      | FileExistsError \<Rightarrow> ''[Errno 17] File exists''
      | PermissionError \<Rightarrow> ''[Errno 13] Permission denied''
      | CalledProcessError rc \<Rightarrow> ''Command returned non-zero exit status''
      | ValueError \<Rightarrow> ''ValueError''
      | EOFError \<Rightarrow> ''EOF when reading a line'')"

text \<open>
  The two handlers that close the \<open>try\<close> block of \<open>commit_folder\<close>: both print to the
  error stream and return \<open>False\<close>.
\<close>

definition handle_exn :: "exn \<Rightarrow> 'g world \<Rightarrow> (exn + bool) \<times> 'g world" where
  "handle_exn e w =
     (case e of
        CalledProcessError rc \<Rightarrow> (Inr False, eprint (''Git error: '' @ exn_text e) w)
      | _ \<Rightarrow> (Inr False, eprint (''Error: '' @ exn_text e) w))"

definition relative_path_of :: "'g world \<Rightarrow> string \<Rightarrow> string \<Rightarrow> string" where
  "relative_path_of w folder_path repo_path =
     relpath (abspath w folder_path) (abspath w repo_path)"

definition git_status :: "string list" where
  "git_status = [''git'', ''status'']"

definition git_add :: "string \<Rightarrow> string list" where
  "git_add relative_path = [''git'', ''add'', relative_path @ ''/'']"

definition git_diff :: "string list" where
  "git_diff = [''git'', ''diff'', ''--cached'', ''--quiet'']"

definition git_commit :: "string \<Rightarrow> string list" where
  "git_commit commit_message = [''git'', ''commit'', ''-m'', commit_message]"

text \<open>
  The body of the \<open>try\<close> block of \<open>commit_folder\<close>. \<open>Inl e\<close> is an exception raised
  inside the block, \<open>Inr b\<close> a \<open>return b\<close>. The probe runs with \<open>check=True\<close>, so a
  status other than 0 raises \<open>CalledProcessError\<close>.
\<close>

definition try_body ::
  "'g runner \<Rightarrow> string \<Rightarrow> string \<Rightarrow> 'g world \<Rightarrow> (exn + bool) \<times> 'g world" where
  "try_body run folder_name relative_path w =
     (case subprocess_run run git_status w of
        (Inl e, w2) \<Rightarrow> (Inl e, w2)
      | (Inr r1, w2) \<Rightarrow>
          if returncode r1 \<noteq> 0 then (Inl (CalledProcessError (returncode r1)), w2)
          else
            (case subprocess_run run (git_add relative_path) w2 of
               (Inl e, w3) \<Rightarrow> (Inl e, w3)
             | (Inr r2, w3) \<Rightarrow>
                 if returncode r2 \<noteq> 0
                 then (Inr False, eprint (''Error adding files: '' @ proc_stderr r2) w3)
                 else
                   (case subprocess_run run git_diff w3 of
                      (Inl e, w4) \<Rightarrow> (Inl e, w4)
                    | (Inr r3, w4) \<Rightarrow>
                        if returncode r3 = 0
                        then (Inr True, print ''No changes to commit.'' w4)
                        else
                          (case now w4 of
                             (t, w5) \<Rightarrow>
                               (case subprocess_run run
                                       (git_commit (''Auto-commit '' @ folder_name
                                                    @ '' - '' @ fmt_iso t)) w5 of
                                  (Inl e, w6) \<Rightarrow> (Inl e, w6)
                                | (Inr r4, w6) \<Rightarrow>
                                    if returncode r4 \<noteq> 0
                                    then (Inr False,
                                          eprint (''Error committing: '' @ proc_stderr r4) w6)
                                    else (Inr True,
                                          print (''Successfully committed '' @ folder_name
                                                 @ ''!'') w6))))))"

text \<open>
  \<open>commit_folder\<close>. \<open>Inl e\<close> is an exception that leaves the function, \<open>Inr b\<close> the
  returned truth value. The change of directory and the two path computations stand
  before the \<open>try\<close> block, as in the source; the handlers catch what the block raises.
\<close>

definition commit_folder ::
  "'g runner \<Rightarrow> string \<Rightarrow> string \<Rightarrow> 'g world \<Rightarrow> (exn + bool) \<times> 'g world" where
  "commit_folder run folder_path repo_path w =
     (case os_chdir repo_path w of
        Inl e \<Rightarrow> (Inl e, w)
      | Inr w1 \<Rightarrow>
          (let folder_name = basename (abspath w1 folder_path);
               relative_path = relative_path_of w1 folder_path repo_path
           in case try_body run folder_name relative_path w1 of
                (Inl e, w2) \<Rightarrow> handle_exn e w2
              | (Inr b, w2) \<Rightarrow> (Inr b, w2)))"





section \<open>The executor script\<close>

text \<open>
  The script body of \<open>git_commit_executor.py\<close>: \<open>argv\<close> is \<open>sys.argv\<close>, the result is the
  exit status of the interpreter. An exception that leaves \<open>commit_folder\<close> is caught
  nowhere: the interpreter prints the traceback and exits with status 1.
\<close>

definition executor_main :: "'g runner \<Rightarrow> string list \<Rightarrow> 'g world \<Rightarrow> int \<times> 'g world" where
  "executor_main run argv w =
     (if length argv \<noteq> 3
      then (1, print ''Usage: git_commit_executor.py <folder_path> <repo_path>'' w)
      else
        (case commit_folder run (argv ! 1) (argv ! 2) w of
           (Inl e, w1) \<Rightarrow> (1, eprint (''Traceback (most recent call last): '' @ exn_text e) w1)
         | (Inr b, w1) \<Rightarrow> (0, w1)))"

section \<open>The interactive setup flow\<close>

subsection \<open>Reading a date and a time of day\<close>

text \<open>
  \<open>datetime.strptime(s, "%Y-%m-%d").date()\<close>. The three directives stand for the
  patterns \<open>\d\d\d\d\<close>, \<open>1[0-2]|0[1-9]|[1-9]\<close> and
  \<open>3[0-1]|[1-2]\d|0[1-9]|[1-9]| [1-9]\<close>; the whole text has to match, and the three
  numbers have to be a date of the calendar. \<open>None\<close> stands for \<open>ValueError\<close>.
\<close>

definition year_field :: "string \<Rightarrow> nat option" where
  "year_field s =
     (case s of
        [a, b, c, d] \<Rightarrow>
          (if is_digit a \<and> is_digit b \<and> is_digit c \<and> is_digit d
           then Some (1000 * digit_of a + 100 * digit_of b + 10 * digit_of c + digit_of d)
           else None)
      | _ \<Rightarrow> None)"

definition month_field :: "string \<Rightarrow> nat option" where
  "month_field s =
     (case s of
        [a] \<Rightarrow> (if a \<in> set ''123456789'' then Some (digit_of a) else None)
      | [a, b] \<Rightarrow>
          (if (a = CHR ''1'' \<and> b \<in> set ''012'') \<or> (a = CHR ''0'' \<and> b \<in> set ''123456789'')
           then Some (10 * digit_of a + digit_of b) else None)
      | _ \<Rightarrow> None)"

definition day_field :: "string \<Rightarrow> nat option" where
  "day_field s =
     (case s of
        [a] \<Rightarrow> (if a \<in> set ''123456789'' then Some (digit_of a) else None)
      | [a, b] \<Rightarrow>
          (if (a = CHR ''3'' \<and> b \<in> set ''01'') \<or> (a \<in> set ''12'' \<and> is_digit b) \<or>
              (a = CHR ''0'' \<and> b \<in> set ''123456789'') \<or>
              (a = CHR '' '' \<and> b \<in> set ''123456789'')
           then Some (10 * digit_of a + digit_of b) else None)
      | _ \<Rightarrow> None)"

definition strptime_ymd :: "string \<Rightarrow> date option" where
  "strptime_ymd s =
     (case split_on CHR ''-'' s of
        [y, m, d] \<Rightarrow>
          (case (year_field y, month_field m, day_field d) of
             (Some yy, Some mm, Some dd) \<Rightarrow>
               (if valid_date yy mm dd then Some \<lparr>year = yy, month = mm, day = dd\<rparr> else None)
           | _ \<Rightarrow> None)
      | _ \<Rightarrow> None)"

text \<open>
  The \<open>try\<close> block of the time prompt:
  \<open>hour, minute = map(int, time_input.split(":"))\<close> and the range check, with \<open>h\<close>
  and \<open>m\<close> for \<open>hour\<close> and \<open>minute\<close>. \<open>None\<close> stands for the \<open>ValueError\<close> that the
  handler turns into a new prompt.
\<close>

definition parse_time :: "'g world \<Rightarrow> string \<Rightarrow> (nat \<times> nat) option" where
  "parse_time w time_input =
     (case map (py_int (unicode_int w) (int_max_str_digits w))
             (split_on CHR '':'' time_input) of
        [Some h, Some m] \<Rightarrow>
          (if \<not> (0 \<le> h \<and> h \<le> 23 \<and> 0 \<le> m \<and> m \<le> 59) then None
           else Some (nat h, nat m))
      | _ \<Rightarrow> None)"

text \<open>\<open>dt.replace(day=d)\<close>: a day outside the month raises \<open>ValueError\<close>.\<close>

definition replace_day :: "datetime \<Rightarrow> nat \<Rightarrow> exn + datetime" where
  "replace_day dt d =
     (if 1 \<le> d \<and> d \<le> days_in_month (year dt) (month dt) then Inr (dt\<lparr>day := d\<rparr>)
      else Inl ValueError)"

subsection \<open>The prompts\<close>

text \<open>
  \<open>os.path.expanduser\<close> for the current user: a leading \<open>~\<close> alone or before \<open>/\<close>
  becomes the home directory.
\<close>

definition expanduser :: "'g world \<Rightarrow> string \<Rightarrow> string" where
  "expanduser w s =
     (if s = ''~'' \<or> take 2 s = ''~/''
      then (let t = (if home w = [] then [] else render (home w)) @ drop 1 s
            in if t = [] then ''/'' else t)
      else s)"

definition quoted :: "string \<Rightarrow> string" where
  "quoted s = [CHR 0x27] @ s @ [CHR 0x27]"

text \<open>
  Each prompt loop runs over the lines of standard input that are still unread; every
  \<open>input()\<close> prints its prompt, takes one line, and raises \<open>EOFError\<close> when none is
  left. A \<open>continue\<close> is the recursive call.
\<close>

fun folder_loop :: "string list \<Rightarrow> 'g world \<Rightarrow> (exn + path \<times> path) \<times> 'g world" where
  "folder_loop [] w = (Inl EOFError, print ''Enter the folder path to commit: '' w)"
| "folder_loop (line # rest) w =
     (let w1 = print ''Enter the folder path to commit: '' (w\<lparr>stdin := rest\<rparr>);
          folder_input = strip line
      in if folder_input = []
         then folder_loop rest (print ''Please enter a valid folder path.'' w1)
         else
           (let folder_path = abspath w1 (expanduser w1 folder_input)
            in if \<not> path_exists w1 folder_path
               then folder_loop rest
                      (print (''Error: Path '' @ quoted (render folder_path)
                              @ '' does not exist.'') w1)
               else if \<not> isdir w1 folder_path
               then folder_loop rest
                      (print (''Error: '' @ quoted (render folder_path)
                              @ '' is not a directory.'') w1)
               else
                 (case find_git_repo w1 (render folder_path) of
                    None \<Rightarrow>
                      folder_loop rest
                        (print ''Please make sure the folder is inside a git repository.''
                           (print (''Error: No git repository found containing ''
                                   @ quoted (render folder_path)) w1))
                  | Some repo_path \<Rightarrow>
                      (Inr (folder_path, repo_path),
                       print ([CHR 0xE2, CHR 0x9C, CHR 0x93] @ '' Found git repository at: ''
                              @ render repo_path) w1))))"

fun date_loop :: "string list \<Rightarrow> 'g world \<Rightarrow> (exn + date) \<times> 'g world" where
  "date_loop [] w =
     (Inl EOFError, print (CHR 0x0A # ''Enter date (YYYY-MM-DD) or press Enter for today: '') w)"
| "date_loop (line # rest) w =
     (let w1 = print (CHR 0x0A # ''Enter date (YYYY-MM-DD) or press Enter for today: '')
                 (w\<lparr>stdin := rest\<rparr>);
          date_input = strip line
      in case (if date_input = []
               then (case now w1 of (t, w2) \<Rightarrow> (Some (date_of t), w2))
               else (strptime_ymd date_input, w1)) of
           (None, w2) \<Rightarrow>
             date_loop rest
               (print ''Invalid date format. Please use YYYY-MM-DD (e.g., 2024-12-04)'' w2)
         | (Some target_date, w2) \<Rightarrow>
             (case now w2 of
                (t, w3) \<Rightarrow>
                  if date_lt target_date (date_of t)
                  then date_loop rest (print ''Date must be today or in the future.'' w3)
                  else (Inr target_date, w3)))"

fun time_loop :: "string list \<Rightarrow> 'g world \<Rightarrow> (exn + nat \<times> nat) \<times> 'g world" where
  "time_loop [] w =
     (Inl EOFError, print ''Enter time (HH:MM) in 24-hour format (e.g., 04:00): '' w)"
| "time_loop (line # rest) w =
     (let w1 = print ''Enter time (HH:MM) in 24-hour format (e.g., 04:00): ''
                 (w\<lparr>stdin := rest\<rparr>);
          time_input = strip line
      in case parse_time w1 time_input of
           None \<Rightarrow>
             time_loop rest (print ''Invalid time format. Please use HH:MM (e.g., 04:00)'' w1)
         | Some (h, m) \<Rightarrow> (Inr (h, m), w1))"

text \<open>
  The end of \<open>get_user_input\<close>: date and time are combined, and a result before the
  current time is moved with \<open>replace(day=day + 1)\<close>.
\<close>

definition combine_target :: "date \<Rightarrow> nat \<Rightarrow> nat \<Rightarrow> 'g world \<Rightarrow> (exn + datetime) \<times> 'g world" where
  "combine_target target_date h m w =
     (let target_datetime = combine target_date h m
      in case now w of
           (t, w1) \<Rightarrow>
             if datetime_lt target_datetime t
             then
               (let w2 = print (''Warning: '' @ fmt_iso target_datetime
                                @ '' is in the past. Using tomorrow instead.'') w1
                in case replace_day target_datetime (day target_datetime + 1) of
                     Inl e \<Rightarrow> (Inl e, w2)
                   | Inr moved \<Rightarrow> (Inr moved, w2))
             else (Inr target_datetime, w1))"

definition get_user_input :: "'g world \<Rightarrow> (exn + path \<times> path \<times> datetime) \<times> 'g world" where
  "get_user_input w =
     (let w0 = print [] (print (replicate 60 CHR ''='') (print ''Git Commit Scheduler''
                 (print (replicate 60 CHR ''='') w)))
      in case folder_loop (stdin w0) w0 of
           (Inl e, w1) \<Rightarrow> (Inl e, w1)
         | (Inr (folder_path, repo_path), w1) \<Rightarrow>
             (case date_loop (stdin w1) w1 of
                (Inl e, w2) \<Rightarrow> (Inl e, w2)
              | (Inr target_date, w2) \<Rightarrow>
                  (case time_loop (stdin w2) w2 of
                     (Inl e, w3) \<Rightarrow> (Inl e, w3)
                   | (Inr (h, m), w3) \<Rightarrow>
                       (case combine_target target_date h m w3 of
                          (Inl e, w4) \<Rightarrow> (Inl e, w4)
                        | (Inr target_datetime, w4) \<Rightarrow>
                            (Inr (folder_path, repo_path, target_datetime), w4)))))"

text \<open>
  An input strictly of the form \<open>HH:MM\<close>: two digits, a colon, two digits; and the hour
  and minute it denotes.
\<close>

definition strict_hhmm :: "string \<Rightarrow> bool" where
  "strict_hhmm s =
     (case s of
        [a, b, c, d, e] \<Rightarrow> is_digit a \<and> is_digit b \<and> c = CHR '':'' \<and> is_digit d \<and> is_digit e
      | _ \<Rightarrow> False)"

definition hhmm_hour :: "string \<Rightarrow> nat" where
  "hhmm_hour s = 10 * digit_of (s ! 0) + digit_of (s ! 1)"

definition hhmm_minute :: "string \<Rightarrow> nat" where
  "hhmm_minute s = 10 * digit_of (s ! 3) + digit_of (s ! 4)"

section \<open>Job registration\<close>

text \<open>
  The label of \<open>create_launchd_plist\<close>:
  \<open>com.gitcommit.\<close>, the folder name in lower case without spaces and hyphens, a
  dot, and the target time as \<open>%Y%m%d%H%M\<close>.
\<close>

definition job_label :: "'g world \<Rightarrow> string \<Rightarrow> datetime \<Rightarrow> string" where
  "job_label w folder_name target_datetime =
     ''com.gitcommit.''
     @ remove_char CHR ''-'' (remove_char CHR '' '' (lower (unicode_lower w) folder_name))
     @ ''.'' @ fmt_ymdhm target_datetime"

text \<open>
  The interpreter path: the stripped output of \<open>which python3\<close>; a status other than 0
  makes \<open>check_output\<close> raise \<open>CalledProcessError\<close>, which gives the default path; any
  other exception leaves the function.
\<close>

definition find_python3 :: "'g runner \<Rightarrow> 'g world \<Rightarrow> (exn + string) \<times> 'g world" where
  "find_python3 run w =
     (case subprocess_run run [''which'', ''python3''] w of
        (Inl e, w1) \<Rightarrow>
          (case e of
             CalledProcessError rc \<Rightarrow> (Inr ''/usr/bin/python3'', w1)
           | _ \<Rightarrow> (Inl e, w1))
      | (Inr r, w1) \<Rightarrow>
          if returncode r \<noteq> 0 then (Inr ''/usr/bin/python3'', w1)
          else (Inr (strip (proc_stdout r)), w1))"

text \<open>A path with all the directories above it, the root first.\<close>

fun ancestors :: "path \<Rightarrow> path list" where
  "ancestors [] = [[]]"
| "ancestors (c # p) = [] # map ((#) c) (ancestors p)"

definition is_file :: "'g world \<Rightarrow> path \<Rightarrow> bool" where
  "is_file w p = (case node_at w p of Some (File x) \<Rightarrow> True | _ \<Rightarrow> False)"

text \<open>
  \<open>os.makedirs(p, exist_ok=True)\<close>: every missing directory on the way is created; a
  file on the way, or in the place of \<open>p\<close> itself, makes it fail.
\<close>

definition makedirs :: "path \<Rightarrow> 'g world \<Rightarrow> exn + 'g world" where
  "makedirs p w =
     (case kernel_error w (render p) of
        Some e \<Rightarrow> Inl e
      | None \<Rightarrow>
          (case find (is_file w) (ancestors p) of
             Some q \<Rightarrow> Inl (if q = p then FileExistsError else NotADirectoryError)
           | None \<Rightarrow>
               Inr (w\<lparr>fs := (\<lambda>q. if q \<in> set (ancestors p) then Some Dir else fs w q)\<rparr>)))"

text \<open>
  \<open>plistlib.dump\<close> refuses a string with a control character other than tab, line
  feed and carriage return with \<open>ValueError\<close>.
\<close>

definition control_char :: "char \<Rightarrow> bool" where
  "control_char c =
     ((of_char c :: nat) < 32 \<and> c \<notin> set [CHR 0x09, CHR 0x0A, CHR 0x0D])"

definition plist_strings :: "plist \<Rightarrow> string list" where
  "plist_strings data =
     Label data # ProgramArguments data @ [StandardOutPath data, StandardErrorPath data]"

definition plist_dump :: "'g world \<Rightarrow> plist \<Rightarrow> exn option" where
  "plist_dump w data =
     (if \<exists>s\<in>set (plist_strings data). \<exists>c\<in>set s. control_char c then Some ValueError
      else dump_error w data)"

text \<open>
  \<open>with open(p, "wb") as f: plistlib.dump(data, f)\<close>: \<open>open\<close> creates the file, or
  empties it when it exists; then the job definition is written. When \<open>dump\<close> raises,
  the file is left with what was written so far, which is no job definition
  (\<open>File None\<close>).
\<close>

definition write_plist :: "path \<Rightarrow> plist \<Rightarrow> 'g world \<Rightarrow> (exn + unit) \<times> 'g world" where
  "write_plist p data w =
     (case kernel_error w (render p) of
        Some e \<Rightarrow> (Inl e, w)
      | None \<Rightarrow>
          (case node_at w p of
             Some Dir \<Rightarrow> (Inl IsADirectoryError, w)
           | _ \<Rightarrow>
               (case node_at w (dirname p) of
                  None \<Rightarrow> (Inl FileNotFoundError, w)
                | Some (File x) \<Rightarrow> (Inl NotADirectoryError, w)
                | Some Dir \<Rightarrow>
                    (case plist_dump w data of
                       Some e \<Rightarrow> (Inl e, w\<lparr>fs := (fs w)(p \<mapsto> File None)\<rparr>)
                     | None \<Rightarrow> (Inr (), w\<lparr>fs := (fs w)(p \<mapsto> File (Some data))\<rparr>)))))"

definition plist_data ::
  "string \<Rightarrow> string \<Rightarrow> path \<Rightarrow> path \<Rightarrow> path \<Rightarrow> path \<Rightarrow> string \<Rightarrow> datetime \<Rightarrow> plist" where
  "plist_data label python3_path script_path folder_path repo_path logs_dir folder_name
     target_datetime =
     \<lparr>Label = label,
      ProgramArguments = [python3_path, render script_path, render folder_path, render repo_path],
      StartCalendarInterval =
        \<lparr>Month = month target_datetime, Day = day target_datetime,
         Hour = hour target_datetime, Minute = minute target_datetime\<rparr>,
      StandardOutPath =
        render (path_join logs_dir
          (''commit_'' @ folder_name @ ''_'' @ fmt_ymd_hm target_datetime @ ''.log'')),
      StandardErrorPath =
        render (path_join logs_dir
          (''commit_'' @ folder_name @ ''_'' @ fmt_ymd_hm target_datetime @ ''_error.log'')),
      RunAtLoad = False\<rparr>"

text \<open>\<open>os.path.expanduser("~/Library/LaunchAgents")\<close>\<close>

definition launchd_dir :: "'g world \<Rightarrow> path" where
  "launchd_dir w = home w @ [''Library'', ''LaunchAgents'']"

definition plist_path_of :: "'g world \<Rightarrow> string \<Rightarrow> path" where
  "plist_path_of w label = path_join (launchd_dir w) (label @ ''.plist'')"

text \<open>
  \<open>create_launchd_plist\<close>; the result is the pair of the path of the job definition
  and its label.
\<close>

definition create_launchd_plist ::
  "'g runner \<Rightarrow> string \<Rightarrow> string \<Rightarrow> datetime \<Rightarrow> string \<Rightarrow> 'g world \<Rightarrow>
     (exn + string \<times> string) \<times> 'g world" where
  "create_launchd_plist run folder_path repo_path target_datetime script_path w =
     (let folder_name = basename (abspath w folder_path);
          label = job_label w folder_name target_datetime
      in case find_python3 run w of
           (Inl e, w1) \<Rightarrow> (Inl e, w1)
         | (Inr python3_path, w1) \<Rightarrow>
             (let script_path1 = abspath w1 script_path;
                  folder_path1 = abspath w1 folder_path;
                  repo_path1 = abspath w1 repo_path;
                  script_dir = dirname script_path1;
                  logs_dir = path_join script_dir ''logs''
              in case makedirs logs_dir w1 of
                   Inl e \<Rightarrow> (Inl e, w1)
                 | Inr w2 \<Rightarrow>
                     (case makedirs (launchd_dir w2) w2 of
                        Inl e \<Rightarrow> (Inl e, w2)
                      | Inr w3 \<Rightarrow>
                          (case write_plist (plist_path_of w3 label)
                                  (plist_data label python3_path script_path1 folder_path1
                                     repo_path1 logs_dir folder_name target_datetime) w3 of
                             (Inl e, w4) \<Rightarrow> (Inl e, w4)
                           | (Inr u, w4) \<Rightarrow>
                               (Inr (render (plist_path_of w4 label), label), w4)))))"

text \<open>
  The normalised folder name and the target time at the resolution of a minute, as the
  specification names them; and a target time whose year has four digits and whose
  other fields are in the ranges of the calendar and the clock.
\<close>

definition normalized_name :: "'g world \<Rightarrow> string \<Rightarrow> string" where
  "normalized_name w folder_name =
     filter (\<lambda>c. c \<noteq> CHR '' '' \<and> c \<noteq> CHR ''-'') (lower (unicode_lower w) folder_name)"

definition minute_stamp :: "datetime \<Rightarrow> nat \<times> nat \<times> nat \<times> nat \<times> nat" where
  "minute_stamp t = (year t, month t, day t, hour t, minute t)"

definition four_digit_year :: "datetime \<Rightarrow> bool" where
  "four_digit_year t =
     (1000 \<le> year t \<and> year t \<le> 9999 \<and> month t \<le> 12 \<and> day t \<le> 31 \<and>
      hour t \<le> 23 \<and> minute t \<le> 59)"

section \<open>A small machine to run the model on\<close>

text \<open>
  A simulation of git with one repository: \<open>pending\<close> says that the working tree has
  changes that are not staged, \<open>staged\<close> that the index differs from the last commit.
\<close>

record git_state =
  pending :: bool
  staged :: bool
  commits :: "string list"

definition exited :: "int \<Rightarrow> proc" where
  "exited rc = \<lparr>returncode = rc, proc_stdout = [], proc_stderr = []\<rparr>"

definition git_sim :: "git_state runner" where
  "git_sim argv d g =
     (if argv = git_status then (Inr (exited 0), g)
      else if take 2 argv = [''git'', ''add'']
      then (Inr (exited 0), g\<lparr>pending := False, staged := (staged g \<or> pending g)\<rparr>)
      else if argv = git_diff then (Inr (exited (if staged g then 1 else 0)), g)
      else if take 3 argv = [''git'', ''commit'', ''-m'']
      then (if staged g
            then (Inr (exited 0), g\<lparr>staged := False, commits := commits g @ [argv ! 3]\<rparr>)
            else (Inr (exited 1), g))
      else if argv = [''which'', ''python3'']
      then (Inr \<lparr>returncode = 0, proc_stdout = ''/usr/bin/python3'' @ [CHR 0x0A],
                 proc_stderr = []\<rparr>, g)
      else (Inl FileNotFoundError, g))"

definition noon :: datetime where
  "noon = \<lparr>year = 2024, month = 1, day = 31,
           hour = 12, minute = 0, second = 0, microsecond = 0\<rparr>"

text \<open>
  A machine with the repository \<open>/repo\<close>, its folder \<open>/repo/docs\<close>, and a second
  repository whose metadata lies in the root directory itself. Every directory may be
  searched, and the texts used on it are pure ASCII, so that the entries for other texts
  are never consulted.
\<close>

definition machine :: "git_state world" where
  "machine =
     \<lparr>cwd = [''home'', ''user''], home = [''home'', ''user''],
      fs = map_of [([''home''], Dir), ([''home'', ''user''], Dir),
                   ([''repo''], Dir), ([''repo'', ''.git''], Dir), ([''repo'', ''docs''], Dir),
                   ([''.git''], Dir), ([''srv''], Dir)],
      searchable = (\<lambda>p. True), kernel_error = (\<lambda>s. None),
      int_max_str_digits = 4300,
      unicode_lower = (\<lambda>s. s), unicode_int = (\<lambda>s. None),
      dump_error = (\<lambda>d. None),
      ext = \<lparr>pending = False, staged = False, commits = []\<rparr>,
      clock = (\<lambda>n. noon), tick = 0,
      stdin = [], stdout = [], stderr = [], calls = []\<rparr>"

section \<open>Properties of the repository resolver\<close>

lemma find_git_repo_loop_root: "find_git_repo_loop w [] = None"
  by (subst find_git_repo_loop.simps) (simp add: dirname_def)

lemma find_git_repo_loop_step:
  "find_git_repo_loop w (p @ [c]) =
     (if path_exists w (path_join (p @ [c]) ''.git'') then Some (p @ [c])
      else find_git_repo_loop w p)"
  by (subst find_git_repo_loop.simps) (simp add: dirname_def)

lemma nearest_repo_here:
  assumes "path_exists w (path_join (p @ [c]) ''.git'')"
  shows "nearest_repo w (p @ [c]) r \<longleftrightarrow> r = p @ [c]"
proof
  assume "nearest_repo w (p @ [c]) r"
  then obtain n where n: "n \<le> length (p @ [c])" "r = take n (p @ [c])"
    "\<forall>m. n < m \<and> m \<le> length (p @ [c]) \<longrightarrow>
         \<not> path_exists w (path_join (take m (p @ [c])) ''.git'')"
    unfolding nearest_repo_def by blast
  have "\<not> n < length (p @ [c])"
    using n(3) assms by auto
  with n(1) have "n = length (p @ [c])" by simp
  with n(2) show "r = p @ [c]" by simp
next
  assume "r = p @ [c]"
  with assms show "nearest_repo w (p @ [c]) r"
    unfolding nearest_repo_def by (intro exI [of _ "length (p @ [c])"]) auto
qed

lemma nearest_repo_above:
  assumes "\<not> path_exists w (path_join (p @ [c]) ''.git'')"
  shows "nearest_repo w (p @ [c]) r \<longleftrightarrow> nearest_repo w p r"
proof
  assume "nearest_repo w (p @ [c]) r"
  then obtain n where n: "0 < n" "n \<le> length (p @ [c])" "r = take n (p @ [c])"
    "path_exists w (path_join r ''.git'')"
    "\<forall>m. n < m \<and> m \<le> length (p @ [c]) \<longrightarrow>
         \<not> path_exists w (path_join (take m (p @ [c])) ''.git'')"
    unfolding nearest_repo_def by blast
  have "n \<noteq> length (p @ [c])"
    using n(3,4) assms by auto
  with n(2) have le: "n \<le> length p" by simp
  then have r: "r = take n p" using n(3) by simp
  have "\<forall>m. n < m \<and> m \<le> length p \<longrightarrow> \<not> path_exists w (path_join (take m p) ''.git'')"
  proof (intro allI impI)
    fix m assume m: "n < m \<and> m \<le> length p"
    then have "n < m \<and> m \<le> length (p @ [c])" by simp
    with n(5) have "\<not> path_exists w (path_join (take m (p @ [c])) ''.git'')" by blast
    moreover have "take m (p @ [c]) = take m p" using m by simp
    ultimately show "\<not> path_exists w (path_join (take m p) ''.git'')" by simp
  qed
  with n(1,4) le r show "nearest_repo w p r"
    unfolding nearest_repo_def by blast
next
  assume "nearest_repo w p r"
  then obtain n where n: "0 < n" "n \<le> length p" "r = take n p"
    "path_exists w (path_join r ''.git'')"
    "\<forall>m. n < m \<and> m \<le> length p \<longrightarrow> \<not> path_exists w (path_join (take m p) ''.git'')"
    unfolding nearest_repo_def by blast
  have "\<forall>m. n < m \<and> m \<le> length (p @ [c]) \<longrightarrow>
           \<not> path_exists w (path_join (take m (p @ [c])) ''.git'')"
  proof (intro allI impI)
    fix m assume m: "n < m \<and> m \<le> length (p @ [c])"
    show "\<not> path_exists w (path_join (take m (p @ [c])) ''.git'')"
    proof (cases "m \<le> length p")
      case True
      with m n(5) have "\<not> path_exists w (path_join (take m p) ''.git'')" by blast
      moreover have "take m (p @ [c]) = take m p" using True by simp
      ultimately show ?thesis by simp
    next
      case False
      with m have "take m (p @ [c]) = p @ [c]" by simp
      with assms show ?thesis by simp
    qed
  qed
  moreover have "r = take n (p @ [c])" using n(2,3) by simp
  moreover have "n \<le> length (p @ [c])" using n(2) by simp
  ultimately show "nearest_repo w (p @ [c]) r"
    unfolding nearest_repo_def using n(1,4) by blast
qed

text \<open>
  Below the root the loop is right: it returns the nearest ancestor of \<open>current\<close>, the
  root apart, that contains \<open>.git\<close>, and \<open>None\<close> when there is none.
\<close>

lemma find_git_repo_loop_found:
  "find_git_repo_loop w current = Some r \<longleftrightarrow> nearest_repo w current r"
proof (induction current rule: rev_induct)
  case Nil
  show ?case by (simp add: find_git_repo_loop_root nearest_repo_def)
next
  case (snoc c p)
  show ?case
  proof (cases "path_exists w (path_join (p @ [c]) ''.git'')")
    case True
    then show ?thesis
      by (auto simp: find_git_repo_loop_step nearest_repo_here)
  next
    case False
    with snoc.IH show ?thesis
      by (simp add: find_git_repo_loop_step nearest_repo_above)
  qed
qed

text \<open>
  C2. A path inside a repository whose metadata lies in the root directory: \<open>/srv\<close>
  exists, its ancestor \<open>/\<close> contains \<open>.git\<close>, no nearer ancestor does, and
  \<open>find_git_repo\<close> returns \<open>None\<close> instead of the root, which the loop never probes.
\<close>

theorem find_git_repo_misses_root:
  "path_exists machine (abspath machine ''/srv'') \<and>
   path_exists machine (path_join [] ''.git'') \<and>
   \<not> path_exists machine (path_join (abspath machine ''/srv'') ''.git'') \<and>
   find_git_repo machine ''/srv'' = None"
  by (simp add: find_git_repo_def abspath_def isabs_def normpath_def path_exists_def
      node_at_def path_join_def machine_def find_git_repo_loop_root
      find_git_repo_loop_step [of _ "[]", simplified])

section \<open>Properties of the commit operation\<close>

lemma abspath_cwd: "cwd w = cwd w' \<Longrightarrow> abspath w s = abspath w' s"
  by (simp add: abspath_def)


lemma os_chdir_Inr:
  assumes "os_chdir s w = Inr w1"
  shows "w1 = w\<lparr>cwd := cwd w1\<rparr> \<and> resolve w s = Inr (cwd w1) \<and> isdir w (cwd w1)"
  using assms
  by (auto simp: os_chdir_def isdir_def split: if_splits option.splits sum.splits node.splits)



lemma handle_exn_eq: "\<exists>w'. handle_exn e w = (Inr False, w') \<and> cwd w' = cwd w"
  by (simp add: handle_exn_def eprint_def split: exn.split)

lemma subprocess_run_cwd: "cwd (snd (subprocess_run run argv w)) = cwd w"
  by (simp add: subprocess_run_def case_prod_beta)


lemma try_body_cwd: "cwd (snd (try_body run n p w)) = cwd w"
  by (simp add: try_body_def case_prod_beta subprocess_run_cwd print_def eprint_def now_def
      split: sum.split)

lemma commit_folder_chdir_fails:
  "os_chdir r w = Inl e \<Longrightarrow> commit_folder run f r w = (Inl e, w)"
  by (simp add: commit_folder_def)

text \<open>
  Once the directory change has succeeded nothing leaves \<open>commit_folder\<close> but a returned
  truth value: the handlers turn every exception of the \<open>try\<close> block into \<open>False\<close>.
\<close>

lemma commit_folder_after_chdir:
  assumes "os_chdir r w = Inr w1"
  shows "\<exists>b w'. commit_folder run f r w = (Inr b, w') \<and> cwd w' = cwd w1"
proof -
  let ?n = "basename (abspath w1 f)" and ?p = "relative_path_of w1 f r"
  obtain res w2 where body: "try_body run ?n ?p w1 = (res, w2)"
    by (cases "try_body run ?n ?p w1")
  have w2: "cwd w2 = cwd w1"
    using try_body_cwd [of run ?n ?p w1] body by simp
  show ?thesis
  proof (cases res)
    case (Inl e)
    obtain w' where "handle_exn e w2 = (Inr False, w')" "cwd w' = cwd w2"
      using handle_exn_eq by blast
    with assms body Inl w2 show ?thesis
      by (auto simp: commit_folder_def)
  next
    case (Inr b)
    with assms body w2 show ?thesis
      by (simp add: commit_folder_def)
  qed
qed






text \<open>
  C1. \<open>commit_folder\<close> with a repository path that is no directory: \<open>os.chdir\<close> stands
  before the \<open>try\<close> block, so its \<open>FileNotFoundError\<close> leaves the function instead of
  being printed and turned into \<open>False\<close>, whatever the external commands would do.
\<close>

theorem commit_folder_raises:
  "commit_folder run ''/repo/docs'' ''/gone'' machine = (Inl FileNotFoundError, machine)"
  by (simp add: commit_folder_def os_chdir_def resolve_def node_at_def isabs_def machine_def)


lemma os_chdir_machine_repo: "os_chdir ''/repo'' machine = Inr (machine\<lparr>cwd := [''repo'']\<rparr>)"
  by (simp add: os_chdir_def resolve_def node_at_def isabs_def machine_def)



text \<open>
  C9, as amended. When \<open>os.chdir(repo_path)\<close> succeeds, which needs a path that is not
  empty and resolves, component by component, to a directory that exists and may be
  entered, \<open>commit_folder\<close> returns a truth value, whether the commit succeeds, is a
  no-op or fails, and the current directory is then the directory that \<open>repo_path\<close>
  resolved to. When \<open>os.chdir(repo_path)\<close> fails, the current directory is afterwards
  what it was before.
\<close>

theorem commit_folder_cwd:
  "(os_chdir repo_path w = Inr w1 \<longrightarrow>
      resolve w repo_path = Inr (cwd w1) \<and> isdir w (cwd w1) \<and>
      (\<exists>b w'. commit_folder run folder_path repo_path w = (Inr b, w') \<and> cwd w' = cwd w1)) \<and>
   (os_chdir repo_path w = Inl e \<longrightarrow>
      cwd (snd (commit_folder run folder_path repo_path w)) = cwd w)"
proof (intro conjI impI)
  assume a: "os_chdir repo_path w = Inr w1"
  then show "resolve w repo_path = Inr (cwd w1)" "isdir w (cwd w1)"
    by (simp_all add: os_chdir_Inr)
  from commit_folder_after_chdir [OF a, of run folder_path]
  show "\<exists>b w'. commit_folder run folder_path repo_path w = (Inr b, w') \<and> cwd w' = cwd w1" .
next
  assume "os_chdir repo_path w = Inl e"
  then show "cwd (snd (commit_folder run folder_path repo_path w)) = cwd w"
    by (simp add: commit_folder_chdir_fails)
qed

theorem commit_folder_cwd_witness:
  "os_chdir ''/repo'' machine = Inr (machine\<lparr>cwd := [''repo'']\<rparr>) \<and>
   (\<exists>b w'. commit_folder git_sim ''/repo/docs'' ''/repo'' machine = (Inr b, w') \<and>
           cwd w' = [''repo'']) \<and>
   os_chdir ''/gone/..'' machine = Inl FileNotFoundError \<and>
   cwd (snd (commit_folder git_sim ''/repo/docs'' ''/gone/..'' machine)) = [''home'', ''user'']"
proof -
  have g: "os_chdir ''/gone/..'' machine = Inl FileNotFoundError"
    by (simp add: os_chdir_def resolve_def node_at_def isabs_def machine_def)
  have c: "cwd machine = [''home'', ''user'']"
    by (simp add: machine_def)
  from commit_folder_cwd [of "''/repo''" machine "machine\<lparr>cwd := [''repo'']\<rparr>" git_sim "''/repo/docs''"]
    commit_folder_cwd [of "''/gone/..''" machine _ git_sim "''/repo/docs''" FileNotFoundError]
    os_chdir_machine_repo g c
  show ?thesis
    by simp
qed

text \<open>
  The claim C9 as it stands fails for a repository path that is no directory: the
  current directory is not changed to it.
\<close>

theorem commit_folder_cwd_counterexample:
  "cwd (snd (commit_folder git_sim ''/repo/docs'' ''/gone'' machine)) \<noteq> abspath machine ''/gone''"
  by (simp add: commit_folder_def os_chdir_def resolve_def node_at_def abspath_def isabs_def
      normpath_def machine_def)

section \<open>Properties of the executor script\<close>

lemma executor_main_usage:
  "length argv \<noteq> 3 \<Longrightarrow>
   executor_main run argv w =
     (1, print ''Usage: git_commit_executor.py <folder_path> <repo_path>'' w)"
  by (simp add: executor_main_def)

lemma executor_main_exit_0:
  assumes "length argv = 3" "os_chdir (argv ! 2) w = Inr w1"
  shows "fst (executor_main run argv w) = 0"
  using commit_folder_after_chdir [OF assms(2), of run "argv ! 1"] assms(1)
  by (auto simp: executor_main_def)

text \<open>
  C5. The executor started with exactly two arguments, the second a repository path
  that is no directory: the \<open>FileNotFoundError\<close> of \<open>os.chdir\<close> leaves \<open>commit_folder\<close>
  and ends the script with exit status 1, not 0.
\<close>

theorem executor_main_exit_1:
  "length [''git_commit_executor.py'', ''/repo/docs'', ''/gone''] = 3 \<and>
   fst (executor_main run [''git_commit_executor.py'', ''/repo/docs'', ''/gone''] machine) = 1"
  by (simp add: executor_main_def commit_folder_def os_chdir_def resolve_def node_at_def
      isabs_def machine_def)

section \<open>Properties of the setup flow\<close>

lemma date_loop_reject:
  assumes "strip line \<noteq> []" "strptime_ymd (strip line) = Some d"
    "date_lt d (date_of (clock w (tick w)))"
  shows "date_loop (line # rest) w =
     date_loop rest
       (print ''Date must be today or in the future.''
          (print (CHR 0x0A # ''Enter date (YYYY-MM-DD) or press Enter for today: '')
             (w\<lparr>stdin := rest, tick := Suc (tick w)\<rparr>)))"
  using assms by (simp add: Let_def now_def print_def)

lemma date_loop_result:
  "date_loop lines w = (Inr d, w') \<Longrightarrow>
     0 < tick w' \<and> clock w' = clock w \<and> \<not> date_lt d (date_of (clock w (tick w' - 1)))"
proof (induction lines arbitrary: w)
  case Nil
  then show ?case by simp
next
  case (Cons line rest)
  show ?case
    using Cons.prems
    by (auto simp: Let_def now_def print_def split: if_splits option.splits prod.splits
        dest!: Cons.IH)
qed

lemma is_digit_cases: "is_digit c \<Longrightarrow> c \<in> set ''0123456789''"
  by (simp add: is_digit_def digit_val_def split: if_splits)

lemma is_digit_plain:
  "is_digit c \<Longrightarrow>
     c \<noteq> CHR '':'' \<and> c \<noteq> CHR ''-'' \<and> c \<noteq> CHR ''+'' \<and> c \<noteq> CHR ''_'' \<and> \<not> is_space c \<and>
     \<not> int_space c \<and> (of_char c :: nat) < 128"
  by (drule is_digit_cases) (auto simp: is_space_def int_space_def)

lemma digit_val_digit_of: "is_digit c \<Longrightarrow> digit_val c = Some (digit_of c)"
  by (auto simp: is_digit_def digit_of_def)

lemma py_int_two_digits:
  assumes "is_digit a" "is_digit b"
  shows "py_int other lim [a, b] = Some (int (10 * digit_of a + digit_of b))"
  using is_digit_plain [OF assms(1)] is_digit_plain [OF assms(2)]
    digit_val_digit_of [OF assms(1)] digit_val_digit_of [OF assms(2)] assms
  by (simp add: py_int_def is_ascii_def ascii_int_def int_strip_def dec_literal_def)

lemma split_on_hhmm:
  assumes "is_digit a" "is_digit b" "is_digit d" "is_digit e"
  shows "split_on CHR '':'' [a, b, CHR '':'', d, e] = [[a, b], [d, e]]"
  using assms [THEN is_digit_plain] by simp

lemma parse_time_strict:
  assumes "strict_hhmm s"
  shows "parse_time w s =
     (if hhmm_hour s \<le> 23 \<and> hhmm_minute s \<le> 59 then Some (hhmm_hour s, hhmm_minute s)
      else None)"
proof -
  from assms obtain a b d e where s: "s = [a, b, CHR '':'', d, e]"
    and dg: "is_digit a" "is_digit b" "is_digit d" "is_digit e"
    by (auto simp: strict_hhmm_def split: list.splits)
  define hv where "hv = 10 * digit_of a + digit_of b"
  define mv where "mv = 10 * digit_of d + digit_of e"
  have sp: "split_on CHR '':'' s = [[a, b], [d, e]]"
    unfolding s by (rule split_on_hhmm [OF dg])
  have hm: "hhmm_hour s = hv" "hhmm_minute s = mv"
    unfolding s by (simp_all add: hhmm_hour_def hhmm_minute_def hv_def mv_def)
  have pi: "py_int other lim [a, b] = Some (int hv)" "py_int other lim [d, e] = Some (int mv)"
    for other lim
    unfolding hv_def mv_def
    by (rule py_int_two_digits [OF dg(1,2)], rule py_int_two_digits [OF dg(3,4)])
  show ?thesis
    by (simp add: parse_time_def sp hm pi)
qed

lemma parse_time_Some_iff:
  "parse_time w s = Some (h, m) \<longleftrightarrow>
     (\<exists>a b hi mi. split_on CHR '':'' s = [a, b] \<and>
        py_int (unicode_int w) (int_max_str_digits w) a = Some hi \<and>
        py_int (unicode_int w) (int_max_str_digits w) b = Some mi \<and>
        0 \<le> hi \<and> hi \<le> 23 \<and> 0 \<le> mi \<and> mi \<le> 59 \<and> h = nat hi \<and> m = nat mi)"
  by (auto simp: parse_time_def split: list.splits option.splits if_splits)

lemma parse_time_range: "parse_time w s = Some (h, m) \<Longrightarrow> h \<le> 23 \<and> m \<le> 59"
  by (auto simp: parse_time_Some_iff)

lemma time_loop_result:
  "time_loop lines w = (Inr (h, m), w') \<Longrightarrow> h \<le> 23 \<and> m \<le> 59"
proof (induction lines arbitrary: w)
  case Nil
  then show ?case by simp
next
  case (Cons line rest)
  show ?case
    using Cons.prems
    by (auto simp: Let_def split: option.splits dest: Cons.IH parse_time_range)
qed

lemma split_on_not_Nil: "split_on c s \<noteq> []"
  by (induction s) (auto split: list.splits)

lemma length_split_on: "length (split_on c s) = Suc (length (filter (\<lambda>x. x = c) s))"
  by (induction s) (auto simp: split_on_not_Nil split: list.splits)

lemma split_on_subset: "f \<in> set (split_on c s) \<Longrightarrow> set f \<subseteq> set s"
proof (induction s arbitrary: f)
  case Nil
  then show ?case by simp
next
  case (Cons a s)
  show ?case
  proof (cases "a = c")
    case True
    with Cons show ?thesis by auto
  next
    case False
    obtain u us where sp: "split_on c s = u # us"
      using split_on_not_Nil [of c s] by (cases "split_on c s") auto
    with False Cons.prems have "f = a # u \<or> f \<in> set us"
      by simp
    moreover have "set u \<subseteq> set s"
      using Cons.IH [of u] sp by simp
    moreover have "set f \<subseteq> set s" if "f \<in> set us"
      using Cons.IH [of f] sp that by simp
    ultimately show ?thesis
      by auto
  qed
qed

lemma split_on_cover: "x \<in> set s \<Longrightarrow> x = c \<or> (\<exists>f\<in>set (split_on c s). x \<in> set f)"
  by (induction s) (auto simp: split_on_not_Nil split: list.splits)

lemma dec_digits_chars:
  "dec_digits acc r = Some n \<Longrightarrow> \<forall>c\<in>set r. is_digit c \<or> c = CHR ''_''"
  by (induction acc r arbitrary: n rule: dec_digits.induct)
    (auto simp: is_digit_def split: if_splits option.splits)

lemma dec_literal_chars:
  "dec_literal s = Some n \<Longrightarrow> \<forall>c\<in>set s. is_digit c \<or> c = CHR ''_''"
  by (cases s) (auto simp: dec_literal_def is_digit_def split: option.splits
      dest!: dec_digits_chars)

lemma dropWhile_cover: "x \<in> set xs \<Longrightarrow> x \<in> set (dropWhile P xs) \<or> P x"
  by (induction xs) auto

lemma int_strip_cover: "x \<in> set s \<Longrightarrow> x \<in> set (int_strip s) \<or> int_space x"
  using dropWhile_cover [of x s int_space]
    dropWhile_cover [of x "rev (dropWhile int_space s)" int_space]
  by (auto simp: int_strip_def)

lemma ascii_int_chars:
  assumes "ascii_int lim s = Some v"
  shows "\<forall>c\<in>set s. is_digit c \<or> c \<in> set ''+-_'' \<or> int_space c"
proof
  fix x assume "x \<in> set s"
  then consider "int_space x" | "x \<in> set (int_strip s)"
    using int_strip_cover by blast
  then show "is_digit x \<or> x \<in> set ''+-_'' \<or> int_space x"
  proof cases
    case 1
    then show ?thesis by simp
  next
    case 2
    from assms obtain c r where cr: "int_strip s = c # r"
      by (auto simp: ascii_int_def split: list.splits)
    with assms obtain n where
      n: "dec_literal (if c = CHR ''-'' \<or> c = CHR ''+'' then r else c # r) = Some n"
      by (auto simp: ascii_int_def Let_def split: option.splits)
    note dl = dec_literal_chars [OF n]
    from 2 cr have "x = c \<or> x \<in> set r" by simp
    with dl show ?thesis
      by (auto split: if_splits)
  qed
qed

lemma parse_time_one_colon:
  assumes "parse_time w s = Some hm"
  shows "length (filter (\<lambda>c. c = CHR '':'') s) = 1"
proof -
  from assms obtain a b where "split_on CHR '':'' s = [a, b]"
    by (cases hm) (auto simp: parse_time_Some_iff)
  with length_split_on [of "CHR '':''" s] show ?thesis
    by simp
qed

lemma is_ascii_subset: "is_ascii s \<Longrightarrow> set f \<subseteq> set s \<Longrightarrow> is_ascii f"
  by (auto simp: is_ascii_def list_all_iff)

lemma parse_time_chars:
  assumes "is_ascii s" "parse_time w s = Some hm"
  shows "\<forall>c\<in>set s. is_digit c \<or> c \<in> set ''+-_:'' \<or> int_space c"
proof
  fix x assume x: "x \<in> set s"
  from assms(2) obtain a b hi mi where sp: "split_on CHR '':'' s = [a, b]"
    and pa: "py_int (unicode_int w) (int_max_str_digits w) a = Some hi"
    and pb: "py_int (unicode_int w) (int_max_str_digits w) b = Some mi"
    by (cases hm) (auto simp: parse_time_Some_iff)
  have "set a \<subseteq> set s" "set b \<subseteq> set s"
    using split_on_subset [of a "CHR '':''" s] split_on_subset [of b "CHR '':''" s] sp
    by simp_all
  with assms(1) have "is_ascii a" "is_ascii b"
    by (auto intro: is_ascii_subset)
  with pa pb have "ascii_int (int_max_str_digits w) a = Some hi"
    "ascii_int (int_max_str_digits w) b = Some mi"
    by (simp_all add: py_int_def)
  note ch = this [THEN ascii_int_chars]
  from split_on_cover [OF x, of "CHR '':''"] sp have "x = CHR '':'' \<or> x \<in> set a \<or> x \<in> set b"
    by auto
  with ch show "is_digit x \<or> x \<in> set ''+-_:'' \<or> int_space x"
    by auto
qed

text \<open>
  C6. A line that parses to a date before today (today as \<open>datetime.now()\<close> gives it at
  the check) is answered with \<open>Date must be today or in the future.\<close> and the loop goes
  on with the next line. A date that the loop returns is never before the today of the
  check that let it through, so no past date leaves the loop.
\<close>

theorem date_loop_rejects_past_dates:
  "(strip line \<noteq> [] \<and> strptime_ymd (strip line) = Some d \<and>
    date_lt d (date_of (clock w (tick w))) \<longrightarrow>
      date_loop (line # rest) w =
        date_loop rest
          (print ''Date must be today or in the future.''
             (print (CHR 0x0A # ''Enter date (YYYY-MM-DD) or press Enter for today: '')
                (w\<lparr>stdin := rest, tick := Suc (tick w)\<rparr>)))) \<and>
   (date_loop lines w = (Inr d', w') \<longrightarrow>
      0 < tick w' \<and> \<not> date_lt d' (date_of (clock w (tick w' - 1))))"
  using date_loop_reject [of line d w rest] date_loop_result [of lines w d' w']
  by blast

theorem date_loop_rejects_past_dates_witness:
  "strip ''2020-01-01'' \<noteq> [] \<and>
   strptime_ymd (strip ''2020-01-01'') = Some \<lparr>year = 2020, month = 1, day = 1\<rparr> \<and>
   date_lt \<lparr>year = 2020, month = 1, day = 1\<rparr> (date_of (clock machine (tick machine))) \<and>
   date_loop [''2020-01-01'', ''2024-02-01''] machine =
     date_loop [''2024-02-01'']
       (print ''Date must be today or in the future.''
          (print (CHR 0x0A # ''Enter date (YYYY-MM-DD) or press Enter for today: '')
             (machine\<lparr>stdin := [''2024-02-01''], tick := Suc (tick machine)\<rparr>))) \<and>
   fst (date_loop [''2020-01-01'', ''2024-02-01''] machine) =
     Inr \<lparr>year = 2024, month = 2, day = 1\<rparr> \<and>
   \<not> date_lt \<lparr>year = 2024, month = 2, day = 1\<rparr> (date_of noon)"
proof -
  have s: "strip ''2020-01-01'' = ''2020-01-01''" "strip ''2024-02-01'' = ''2024-02-01''"
    by (simp_all add: strip_def is_space_def)
  have p: "strptime_ymd ''2020-01-01'' = Some \<lparr>year = 2020, month = 1, day = 1\<rparr>"
    "strptime_ymd ''2024-02-01'' = Some \<lparr>year = 2024, month = 2, day = 1\<rparr>"
    by (simp_all add: strptime_ymd_def year_field_def month_field_def day_field_def
        is_digit_def digit_of_def digit_val_def valid_date_def days_in_month_def is_leap_def)
  have c: "clock machine = (\<lambda>n. noon)" "tick machine = 0"
    by (simp_all add: machine_def)
  have lt: "date_lt \<lparr>year = 2020, month = 1, day = 1\<rparr> (date_of noon)"
    "\<not> date_lt \<lparr>year = 2024, month = 2, day = 1\<rparr> (date_of noon)"
    by (simp_all add: date_lt_def date_of_def noon_def)
  have r: "fst (date_loop [''2020-01-01'', ''2024-02-01''] machine) =
      Inr \<lparr>year = 2024, month = 2, day = 1\<rparr>"
    by (simp add: s p c Let_def now_def print_def date_lt_def date_of_def noon_def)
  have "strip ''2020-01-01'' \<noteq> [] \<and>
      strptime_ymd (strip ''2020-01-01'') = Some \<lparr>year = 2020, month = 1, day = 1\<rparr> \<and>
      date_lt \<lparr>year = 2020, month = 1, day = 1\<rparr> (date_of (clock machine (tick machine)))"
    using p(1) lt(1) by (simp add: s c)
  with date_loop_rejects_past_dates
    [of "''2020-01-01''" "\<lparr>year = 2020, month = 1, day = 1\<rparr>" machine "[''2024-02-01'']",
      THEN conjunct1]
  have "date_loop [''2020-01-01'', ''2024-02-01''] machine =
     date_loop [''2024-02-01'']
       (print ''Date must be today or in the future.''
          (print (CHR 0x0A # ''Enter date (YYYY-MM-DD) or press Enter for today: '')
             (machine\<lparr>stdin := [''2024-02-01''], tick := Suc (tick machine)\<rparr>)))"
    by blast
  with \<open>strip ''2020-01-01'' \<noteq> [] \<and> _\<close> r lt(2) show ?thesis
    by blast
qed

text \<open>
  C7, as amended. The time prompt accepts a line exactly when, stripped, it splits at
  the colons into two fields that \<open>int\<close> reads as an hour from 0 to 23 and a minute
  from 0 to 59. So an accepted line has exactly one colon, and when it is pure ASCII it
  consists of digits, signs, underscores, the colon and white space only; \<open>int\<close> allows
  white space around the number, a sign and an underscore between digits, and refuses
  numbers with more digits than its limit. Every other line is answered with the error
  message and a new prompt. A line strictly of the form \<open>HH:MM\<close> is accepted exactly
  when its hour is at most 23 and its minute at most 59, and whatever the loop returns
  lies in these ranges.
\<close>

theorem time_prompt_accepts:
  "(parse_time w s = Some (h, m) \<longleftrightarrow>
      (\<exists>a b hi mi. split_on CHR '':'' s = [a, b] \<and>
         py_int (unicode_int w) (int_max_str_digits w) a = Some hi \<and>
         py_int (unicode_int w) (int_max_str_digits w) b = Some mi \<and>
         0 \<le> hi \<and> hi \<le> 23 \<and> 0 \<le> mi \<and> mi \<le> 59 \<and> h = nat hi \<and> m = nat mi)) \<and>
   (parse_time w s = Some (h, m) \<longrightarrow>
      length (filter (\<lambda>c. c = CHR '':'') s) = 1 \<and>
      (is_ascii s \<longrightarrow> (\<forall>c\<in>set s. is_digit c \<or> c \<in> set ''+-_:'' \<or> int_space c))) \<and>
   (strict_hhmm s \<longrightarrow>
      parse_time w s =
        (if hhmm_hour s \<le> 23 \<and> hhmm_minute s \<le> 59 then Some (hhmm_hour s, hhmm_minute s)
         else None)) \<and>
   time_loop (line # rest) w =
     (case parse_time (print ''Enter time (HH:MM) in 24-hour format (e.g., 04:00): ''
                         (w\<lparr>stdin := rest\<rparr>)) (strip line) of
        None \<Rightarrow>
          time_loop rest
            (print ''Invalid time format. Please use HH:MM (e.g., 04:00)''
               (print ''Enter time (HH:MM) in 24-hour format (e.g., 04:00): ''
                  (w\<lparr>stdin := rest\<rparr>)))
      | Some hm \<Rightarrow>
          (Inr hm, print ''Enter time (HH:MM) in 24-hour format (e.g., 04:00): ''
                     (w\<lparr>stdin := rest\<rparr>))) \<and>
   (time_loop lines w = (Inr (h', m'), w') \<longrightarrow> h' \<le> 23 \<and> m' \<le> 59)"
proof (intro conjI impI)
  show "parse_time w s = Some (h, m) \<longleftrightarrow>
      (\<exists>a b hi mi. split_on CHR '':'' s = [a, b] \<and>
         py_int (unicode_int w) (int_max_str_digits w) a = Some hi \<and>
         py_int (unicode_int w) (int_max_str_digits w) b = Some mi \<and>
         0 \<le> hi \<and> hi \<le> 23 \<and> 0 \<le> mi \<and> mi \<le> 59 \<and> h = nat hi \<and> m = nat mi)"
    by (rule parse_time_Some_iff)
next
  assume "parse_time w s = Some (h, m)"
  then show "length (filter (\<lambda>c. c = CHR '':'') s) = 1"
    by (rule parse_time_one_colon)
next
  assume "parse_time w s = Some (h, m)" "is_ascii s"
  then show "\<forall>c\<in>set s. is_digit c \<or> c \<in> set ''+-_:'' \<or> int_space c"
    using parse_time_chars by blast
next
  assume "strict_hhmm s"
  then show "parse_time w s =
        (if hhmm_hour s \<le> 23 \<and> hhmm_minute s \<le> 59 then Some (hhmm_hour s, hhmm_minute s)
         else None)"
    by (rule parse_time_strict)
next
  show "time_loop (line # rest) w =
     (case parse_time (print ''Enter time (HH:MM) in 24-hour format (e.g., 04:00): ''
                         (w\<lparr>stdin := rest\<rparr>)) (strip line) of
        None \<Rightarrow>
          time_loop rest
            (print ''Invalid time format. Please use HH:MM (e.g., 04:00)''
               (print ''Enter time (HH:MM) in 24-hour format (e.g., 04:00): ''
                  (w\<lparr>stdin := rest\<rparr>)))
      | Some hm \<Rightarrow>
          (Inr hm, print ''Enter time (HH:MM) in 24-hour format (e.g., 04:00): ''
                     (w\<lparr>stdin := rest\<rparr>)))"
    by (simp add: Let_def split: option.split)
next
  assume "time_loop lines w = (Inr (h', m'), w')"
  then show "h' \<le> 23" "m' \<le> 59"
    by (auto dest: time_loop_result)
qed

lemma parse_time_frame:
  "unicode_int w' = unicode_int w \<Longrightarrow> int_max_str_digits w' = int_max_str_digits w \<Longrightarrow>
   parse_time w' s = parse_time w s"
  by (simp add: parse_time_def)

theorem time_prompt_accepts_witness:
  "strict_hhmm ''04:30'' \<and> parse_time machine ''04:30'' = Some (4, 30) \<and>
   length (filter (\<lambda>c. c = CHR '':'') ''04:30'') = 1 \<and> is_ascii ''04:30'' \<and>
   strict_hhmm ''24:00'' \<and> parse_time machine ''24:00'' = None \<and>
   fst (time_loop [''24:00'', ''4 pm'', ''04:30''] machine) = Inr (4, 30)"
proof -
  have st: "strict_hhmm ''04:30''" "strict_hhmm ''24:00''"
    by (simp_all add: strict_hhmm_def is_digit_def digit_val_def)
  have hm: "hhmm_hour ''04:30'' = 4" "hhmm_minute ''04:30'' = 30"
    "hhmm_hour ''24:00'' = 24" "hhmm_minute ''24:00'' = 0"
    by (simp_all add: hhmm_hour_def hhmm_minute_def digit_of_def digit_val_def)
  have p1: "parse_time w ''04:30'' = Some (4, 30)" for w :: "git_state world"
    using time_prompt_accepts [of w "''04:30''", THEN conjunct2, THEN conjunct2, THEN conjunct1]
      st hm by simp
  have p2: "parse_time w ''24:00'' = None" for w :: "git_state world"
    using time_prompt_accepts [of w "''24:00''", THEN conjunct2, THEN conjunct2, THEN conjunct1]
      st hm by simp
  have p3: "parse_time w ''4 pm'' = None" for w :: "git_state world"
    by (simp add: parse_time_def split: option.split)
  have s: "strip ''24:00'' = ''24:00''" "strip ''4 pm'' = ''4 pm''" "strip ''04:30'' = ''04:30''"
    by (simp_all add: strip_def is_space_def)
  have "fst (time_loop [''24:00'', ''4 pm'', ''04:30''] machine) = Inr (4, 30)"
    by (simp add: Let_def s p1 p2 p3)
  moreover have "is_ascii ''04:30''"
    by (simp add: is_ascii_def)
  ultimately show ?thesis
    using st p1 p2 by simp
qed

text \<open>
  The claim C7 as it stands fails: the line \<open>-0:+5\<close> is not of the form \<open>HH:MM\<close>,
  and the prompt accepts it as 00:05.
\<close>

theorem time_prompt_counterexample:
  "\<not> strict_hhmm ''-0:+5'' \<and> parse_time machine ''-0:+5'' = Some (0, 5) \<and>
   fst (time_loop [''-0:+5''] machine) = Inr (0, 5)"
proof -
  have a: "\<not> strict_hhmm ''-0:+5''"
    by (simp add: strict_hhmm_def is_digit_def digit_val_def)
  have b: "parse_time w ''-0:+5'' = Some (0, 5)" for w :: "git_state world"
    by (simp add: parse_time_def py_int_def is_ascii_def ascii_int_def int_strip_def
        int_space_def dec_literal_def digit_val_def is_digit_def)
  have "strip ''-0:+5'' = ''-0:+5''"
    by (simp add: strip_def is_space_def)
  with b have "fst (time_loop [''-0:+5''] machine) = Inr (0, 5)"
    by (simp add: Let_def)
  with a b show ?thesis
    by simp
qed

text \<open>
  What \<open>int\<close> refuses although \<open>str.strip\<close> would take it for white space or a
  number: a separator \<open>0x1C\<close> after the hour, and a number with more digits than the
  limit.
\<close>

lemma ascii_int_limit:
  assumes "s \<noteq> []" "is_digit (hd s)" "is_digit (last s)"
    and "640 < length (filter is_digit s)" "0 < lim" "lim < length (filter is_digit s)"
  shows "ascii_int lim s = None"
proof -
  from assms(1) obtain c r where s: "s = c # r"
    by (cases s) auto
  have "dropWhile int_space s = s"
    using assms(2) is_digit_plain [of c] by (simp add: s)
  moreover have "dropWhile int_space (rev s) = rev s"
    using assms(1,3) is_digit_plain [of "last s"]
    by (cases "rev s") (auto simp: last_rev [symmetric] simp del: last_rev)
  ultimately have st: "int_strip s = c # r"
    by (simp add: int_strip_def s)
  have "c \<noteq> CHR ''-''" "c \<noteq> CHR ''+''"
    using assms(2) is_digit_plain [of c] by (simp_all add: s)
  moreover from assms(4,6) have "640 < length (filter is_digit (c # r))"
    "lim < length (filter is_digit (c # r))"
    by (simp_all add: s)
  ultimately show ?thesis
    using assms(5) by (simp add: ascii_int_def st Let_def split: option.split)
qed

lemma parse_time_separator: "parse_time machine (''1'' @ [CHR 0x1C] @ '':05'') = None"
  by (simp add: parse_time_def py_int_def is_ascii_def ascii_int_def int_strip_def
      int_space_def dec_literal_def digit_val_def is_digit_def)

text \<open>
  What the move of a past target does: on a day that is not the last of its month the
  target is printed in a warning and moved to the next day of the month; on the last
  day of a month \<open>replace\<close> raises \<open>ValueError\<close>.
\<close>

lemma combine_target_moves:
  assumes "datetime_lt (combine d h m) (clock w (tick w))"
    and "day d < days_in_month (year d) (month d)"
  shows "fst (combine_target d h m w) = Inr ((combine d h m)\<lparr>day := day d + 1\<rparr>)"
  using assms
  by (simp add: combine_target_def Let_def now_def replace_day_def combine_def)

lemma combine_target_month_end:
  assumes "datetime_lt (combine d h m) (clock w (tick w))"
    and "day d = days_in_month (year d) (month d)"
  shows "fst (combine_target d h m w) = Inl ValueError"
  using assms
  by (simp add: combine_target_def Let_def now_def replace_day_def combine_def)

lemma combine_target_future:
  assumes "\<not> datetime_lt (combine d h m) (clock w (tick w))"
  shows "fst (combine_target d h m w) = Inr (combine d h m)"
  using assms
  by (simp add: combine_target_def Let_def now_def)

text \<open>
  C4. On 31 January 2024 at noon the user gives the folder, an empty date and the time
  04:00. The target 2024-01-31 04:00 is before the current time, so the flow warns and
  calls \<open>replace(day=32)\<close>: \<open>ValueError\<close> ends \<open>get_user_input\<close>, and no target of
  1 February is produced.
\<close>

theorem get_user_input_month_end:
  "datetime_lt (combine (date_of noon) 4 0) noon \<and>
   day noon = days_in_month (year noon) (month noon) \<and>
   fst (get_user_input (machine\<lparr>stdin := [''/repo/docs'', [], ''04:00'']\<rparr>)) = Inl ValueError"
  by (simp add: get_user_input_def Let_def strip_def is_space_def print_def abspath_def
      expanduser_def isabs_def normpath_def path_exists_def isdir_def node_at_def machine_def
      find_git_repo_def render_def find_git_repo_loop.simps dirname_def path_join_def
      now_def date_of_def noon_def date_lt_def parse_time_def py_int_def is_ascii_def
      ascii_int_def int_strip_def int_space_def is_digit_def dec_literal_def
      digit_val_def combine_target_def combine_def datetime_lt_def time_lt_def replace_day_def
      days_in_month_def)

section \<open>Properties of job registration\<close>

lemma ancestors_length: "q \<in> set (ancestors p) \<Longrightarrow> length q \<le> length p"
  by (induction p arbitrary: q) auto

lemma ancestors_self: "p \<in> set (ancestors p)"
  by (induction p) auto

lemma find_python3_frame:
  assumes "find_python3 run w = (x, w1)"
  shows "fs w1 = fs w \<and> cwd w1 = cwd w \<and> home w1 = home w \<and>
         stdout w1 = stdout w \<and> stderr w1 = stderr w \<and>
         kernel_error w1 = kernel_error w \<and> dump_error w1 = dump_error w \<and>
         unicode_lower w1 = unicode_lower w"
  using assms
  by (auto simp: find_python3_def subprocess_run_def split: prod.splits sum.splits exn.splits
      if_splits)

lemma makedirs_ok:
  assumes "kernel_error w (render p) = None" "\<forall>q\<in>set (ancestors p). \<not> is_file w q"
  shows "makedirs p w =
     Inr (w\<lparr>fs := (\<lambda>q. if q \<in> set (ancestors p) then Some Dir else fs w q)\<rparr>)"
proof -
  from assms(2) have "find (is_file w) (ancestors p) = None"
    by (simp add: find_None_iff)
  with assms(1) show ?thesis
    by (simp add: makedirs_def)
qed

lemma makedirs_InrD:
  assumes "makedirs p w = Inr w'"
  shows "kernel_error w (render p) = None \<and> (\<forall>q\<in>set (ancestors p). \<not> is_file w q) \<and>
     w' = w\<lparr>fs := (\<lambda>q. if q \<in> set (ancestors p) then Some Dir else fs w q)\<rparr>"
proof -
  from assms have k: "kernel_error w (render p) = None"
    by (auto simp: makedirs_def split: option.splits)
  with assms have "find (is_file w) (ancestors p) = None"
    by (auto simp: makedirs_def split: option.splits)
  with assms k show ?thesis
    by (auto simp: makedirs_def find_None_iff)
qed

lemma write_plist_ok:
  assumes "kernel_error w (render p) = None"
    and "node_at w p \<noteq> Some Dir" "node_at w (dirname p) = Some Dir"
  shows "write_plist p data w =
     (case plist_dump w data of
        Some e \<Rightarrow> (Inl e, w\<lparr>fs := (fs w)(p \<mapsto> File None)\<rparr>)
      | None \<Rightarrow> (Inr (), w\<lparr>fs := (fs w)(p \<mapsto> File (Some data))\<rparr>))"
  using assms by (auto simp: write_plist_def split: option.splits node.splits)

lemma write_plist_InrD:
  assumes "write_plist p data w = (Inr u, w')"
  shows "kernel_error w (render p) = None \<and> plist_dump w data = None \<and>
     node_at w p \<noteq> Some Dir \<and> node_at w (dirname p) = Some Dir \<and>
     w' = w\<lparr>fs := (fs w)(p \<mapsto> File (Some data))\<rparr>"
  using assms by (auto simp: write_plist_def split: option.splits node.splits)

lemma node_at_fs: "fs w = fs w' \<Longrightarrow> node_at w q = node_at w' q"
  by (simp add: node_at_def)

lemma plist_path_not_above: "plist_path_of w l \<notin> set (ancestors (launchd_dir w))"
proof
  assume "plist_path_of w l \<in> set (ancestors (launchd_dir w))"
  then have "length (plist_path_of w l) \<le> length (launchd_dir w)"
    by (rule ancestors_length)
  then show False
    by (simp add: plist_path_of_def path_join_def)
qed

lemma dirname_plist_path: "dirname (plist_path_of w l) = launchd_dir w"
  by (simp add: plist_path_of_def path_join_def dirname_def)

lemma plist_dump_frame: "dump_error w' = dump_error w \<Longrightarrow> plist_dump w' d = plist_dump w d"
  by (simp add: plist_dump_def)

lemma job_label_frame:
  "unicode_lower w' = unicode_lower w \<Longrightarrow> job_label w' n t = job_label w n t"
  by (simp add: job_label_def)

text \<open>What a successful registration leaves behind.\<close>

lemma create_launchd_plist_InrD:
  assumes "create_launchd_plist run f r t sp w = (Inr (p, l), w')"
  defines "L \<equiv> path_join (dirname (abspath w sp)) ''logs''"
  shows "l = job_label w (basename (abspath w f)) t"
    and "p = render (plist_path_of w l)"
    and "cwd w' = cwd w" and "home w' = home w"
    and "\<forall>q\<in>set (ancestors L). node_at w' q = Some Dir"
    and "\<forall>q\<in>set (ancestors (launchd_dir w)). node_at w' q = Some Dir"
    and "\<exists>d. node_at w' (plist_path_of w l) = Some (File (Some d)) \<and>
             ProgramArguments d ! 2 = render (abspath w f)"
    and "kernel_error w' = kernel_error w \<and> dump_error w' = dump_error w \<and>
         unicode_lower w' = unicode_lower w"
    and "kernel_error w (render L) = None \<and> kernel_error w (render (launchd_dir w)) = None \<and>
         kernel_error w (render (plist_path_of w l)) = None"
proof -
  obtain x w1 where a: "find_python3 run w = (x, w1)"
    by (cases "find_python3 run w")
  with assms(1) obtain py where x: "x = Inr py"
    by (cases x) (auto simp: create_launchd_plist_def Let_def)
  note a = a [unfolded x]
  from find_python3_frame [OF a] have f1: "fs w1 = fs w" "cwd w1 = cwd w" "home w1 = home w"
    and f2: "kernel_error w1 = kernel_error w" "dump_error w1 = dump_error w"
      "unicode_lower w1 = unicode_lower w"
    by simp_all
  have ab: "abspath w1 s = abspath w s" for s
    using f1(2) by (rule abspath_cwd)
  let ?d = "plist_data l py (abspath w sp) (abspath w f) (abspath w r) L (basename (abspath w f)) t"
  from assms(1) a obtain w2 where b: "makedirs L w1 = Inr w2"
    by (cases "makedirs L w1") (auto simp: create_launchd_plist_def Let_def ab L_def)
  from makedirs_InrD [OF b] have w2: "w2 = w1\<lparr>fs := (\<lambda>q. if q \<in> set (ancestors L) then Some Dir else fs w1 q)\<rparr>"
    and k1: "kernel_error w (render L) = None"
    by (simp_all add: f2)
  have ld2: "launchd_dir w2 = launchd_dir w"
    using f1(3) by (simp add: w2 launchd_dir_def)
  from assms(1) a b obtain w3 where c: "makedirs (launchd_dir w) w2 = Inr w3"
    by (cases "makedirs (launchd_dir w) w2") (auto simp: create_launchd_plist_def Let_def ab L_def ld2)
  from makedirs_InrD [OF c] have w3: "w3 = w2\<lparr>fs := (\<lambda>q. if q \<in> set (ancestors (launchd_dir w)) then Some Dir else fs w2 q)\<rparr>"
    and k2: "kernel_error w (render (launchd_dir w)) = None"
    by (simp_all add: w2 f2)
  have pp3: "plist_path_of w3 s = plist_path_of w s" for s
    using f1(3) by (simp add: w3 w2 plist_path_of_def launchd_dir_def)
  from assms(1) a b c have l: "l = job_label w (basename (abspath w f)) t"
    by (auto simp: create_launchd_plist_def Let_def ab L_def ld2 split: sum.splits prod.splits)
  from assms(1) a b c obtain u where d: "write_plist (plist_path_of w l) ?d w3 = (Inr u, w')"
    and p': "p = render (plist_path_of w' l)"
    by (auto simp: create_launchd_plist_def Let_def ab L_def ld2 pp3 split: sum.splits prod.splits)
  from write_plist_InrD [OF d] have w': "w' = w3\<lparr>fs := (fs w3)(plist_path_of w l \<mapsto> File (Some ?d))\<rparr>"
    and nd: "node_at w3 (plist_path_of w l) \<noteq> Some Dir"
    and k3: "kernel_error w (render (plist_path_of w l)) = None"
    by (simp_all add: w3 w2 f2)
  show "l = job_label w (basename (abspath w f)) t" by (rule l)
  show hm: "home w' = home w" using f1(3) by (simp add: w' w3 w2)
  show "cwd w' = cwd w" using f1(2) by (simp add: w' w3 w2)
  show "p = render (plist_path_of w l)"
    using p' hm by (simp add: plist_path_of_def launchd_dir_def)
  show "kernel_error w' = kernel_error w \<and> dump_error w' = dump_error w \<and>
         unicode_lower w' = unicode_lower w"
    using f2 by (simp add: w' w3 w2)
  show "kernel_error w (render L) = None \<and> kernel_error w (render (launchd_dir w)) = None \<and>
         kernel_error w (render (plist_path_of w l)) = None"
    using k1 k2 k3 by simp
  have n3: "node_at w3 q = Some Dir" if "q \<in> set (ancestors L) \<or> q \<in> set (ancestors (launchd_dir w))" for q
    using that by (auto simp: node_at_def w3 w2)
  have ne: "q \<noteq> plist_path_of w l" if "q \<in> set (ancestors L) \<or> q \<in> set (ancestors (launchd_dir w))" for q
    using n3 [OF that] nd by auto
  have n': "node_at w' q = Some Dir" if "q \<in> set (ancestors L) \<or> q \<in> set (ancestors (launchd_dir w))" for q
    using n3 [OF that] ne [OF that] by (auto simp: node_at_def w' split: if_splits)
  show "\<forall>q\<in>set (ancestors L). node_at w' q = Some Dir"
    using n' by blast
  show "\<forall>q\<in>set (ancestors (launchd_dir w)). node_at w' q = Some Dir"
    using n' by blast
  have "plist_path_of w l \<noteq> []"
    by (simp add: plist_path_of_def path_join_def)
  then have "node_at w' (plist_path_of w l) = Some (File (Some ?d))"
    by (simp add: node_at_def w')
  moreover have "ProgramArguments ?d ! 2 = render (abspath w f)"
    by (simp add: plist_data_def)
  ultimately show "\<exists>d. node_at w' (plist_path_of w l) = Some (File (Some d)) \<and>
             ProgramArguments d ! 2 = render (abspath w f)"
    by blast
qed

text \<open>
  When a registration gets as far as writing the file, and what it then does: with a
  job definition that \<open>plistlib.dump\<close> accepts it succeeds, with one that \<open>dump\<close>
  refuses it raises after the file has been emptied.
\<close>

lemma create_launchd_plist_writes:
  fixes w :: "'g world" and sp f r :: string and t :: datetime
  defines "L \<equiv> path_join (dirname (abspath w sp)) ''logs''"
  defines "l \<equiv> job_label w (basename (abspath w f)) t"
  defines "d \<equiv> \<lambda>py. plist_data l py (abspath w sp) (abspath w f) (abspath w r) L
                       (basename (abspath w f)) t"
  assumes py: "find_python3 run w = (Inr py, w1)"
    and nl: "\<forall>q\<in>set (ancestors L). \<not> is_file w q"
    and nd: "\<forall>q\<in>set (ancestors (launchd_dir w)). \<not> is_file w q"
    and pp: "node_at w (plist_path_of w l) \<noteq> Some Dir" "plist_path_of w l \<notin> set (ancestors L)"
    and ke: "kernel_error w (render L) = None" "kernel_error w (render (launchd_dir w)) = None"
      "kernel_error w (render (plist_path_of w l)) = None"
  shows "\<exists>w'. create_launchd_plist run f r t sp w =
           ((case plist_dump w (d py) of
               None \<Rightarrow> Inr (render (plist_path_of w l), l) | Some e \<Rightarrow> Inl e), w') \<and>
     node_at w' (plist_path_of w l) =
       Some (File (case plist_dump w (d py) of None \<Rightarrow> Some (d py) | Some e \<Rightarrow> None)) \<and>
     stdout w' = stdout w \<and> stderr w' = stderr w"
proof -
  let ?d = "d py"
  let ?P = "plist_path_of w l"
  from find_python3_frame [OF py] have f1: "fs w1 = fs w" "cwd w1 = cwd w" "home w1 = home w"
    and io: "stdout w1 = stdout w" "stderr w1 = stderr w"
    and f2: "kernel_error w1 = kernel_error w" "dump_error w1 = dump_error w"
    by simp_all
  have ab: "abspath w1 s = abspath w s" for s
    using f1(2) by (rule abspath_cwd)
  have if1: "is_file w1 q = is_file w q" for q
    using node_at_fs [OF f1(1)] by (simp add: is_file_def)
  let ?w2 = "w1\<lparr>fs := (\<lambda>q. if q \<in> set (ancestors L) then Some Dir else fs w1 q)\<rparr>"
  have b: "makedirs L w1 = Inr ?w2"
    using nl ke(1) by (intro makedirs_ok) (simp_all add: if1 f2)
  have ld2: "launchd_dir ?w2 = launchd_dir w"
    using f1(3) by (simp add: launchd_dir_def)
  have "\<not> is_file ?w2 q" if "q \<in> set (ancestors (launchd_dir w))" for q
    using nd that f1(1) by (auto simp: is_file_def node_at_def)
  then have c: "makedirs (launchd_dir w) ?w2 =
      Inr (?w2\<lparr>fs := (\<lambda>q. if q \<in> set (ancestors (launchd_dir w)) then Some Dir else fs ?w2 q)\<rparr>)"
    using ke(2) by (intro makedirs_ok) (simp add: f2, blast)
  let ?w3 = "?w2\<lparr>fs := (\<lambda>q. if q \<in> set (ancestors (launchd_dir w)) then Some Dir else fs ?w2 q)\<rparr>"
  have pp3: "plist_path_of ?w3 s = plist_path_of w s" for s
    using f1(3) by (simp add: plist_path_of_def launchd_dir_def)
  have "node_at ?w3 ?P = node_at w ?P"
    using pp(2) plist_path_not_above [of w l] f1(1) by (simp add: node_at_def)
  with pp(1) have n1: "node_at ?w3 ?P \<noteq> Some Dir"
    by simp
  have n2: "node_at ?w3 (dirname ?P) = Some Dir"
    by (simp add: dirname_plist_path node_at_def ancestors_self)
  have k3: "kernel_error ?w3 (render ?P) = None"
    using ke(3) by (simp add: f2)
  have pd: "plist_dump ?w3 ?d = plist_dump w ?d"
    by (rule plist_dump_frame) (simp add: f2)
  note wr = write_plist_ok [OF k3 n1 n2, of ?d, unfolded pd]
  have ne: "?P \<noteq> []"
    by (simp add: plist_path_of_def path_join_def)
  show ?thesis
  proof (cases "plist_dump w ?d")
    case None
    let ?w4 = "?w3\<lparr>fs := (fs ?w3)(?P \<mapsto> File (Some ?d))\<rparr>"
    have d4: "write_plist ?P ?d ?w3 = (Inr (), ?w4)"
      using wr None by simp
    have pp4: "plist_path_of ?w4 l = ?P"
      using f1(3) by (simp add: plist_path_of_def launchd_dir_def)
    have res: "create_launchd_plist run f r t sp w = (Inr (render ?P, l), ?w4)"
      unfolding create_launchd_plist_def Let_def d_def
      by (simp only: py prod.case sum.case ab L_def [symmetric] l_def [symmetric]
          b ld2 c pp3 d4 [unfolded d_def] pp4 [unfolded d_def])
    have "node_at ?w4 ?P = Some (File (Some ?d))"
      using ne by (simp add: node_at_def)
    moreover have "stdout ?w4 = stdout w" "stderr ?w4 = stderr w"
      using io by simp_all
    ultimately show ?thesis
      using res None by auto
  next
    case (Some e)
    let ?w4 = "?w3\<lparr>fs := (fs ?w3)(?P \<mapsto> File None)\<rparr>"
    have d4: "write_plist ?P ?d ?w3 = (Inl e, ?w4)"
      using wr Some by simp
    have res: "create_launchd_plist run f r t sp w = (Inl e, ?w4)"
      unfolding create_launchd_plist_def Let_def d_def
      by (simp only: py prod.case sum.case ab L_def [symmetric] l_def [symmetric]
          b ld2 c pp3 d4 [unfolded d_def])
    have "node_at ?w4 ?P = Some (File None)"
      using ne by (simp add: node_at_def)
    moreover have "stdout ?w4 = stdout w" "stderr ?w4 = stderr w"
      using io by simp_all
    ultimately show ?thesis
      using res Some by auto
  qed
qed

lemma job_label_normalized:
  "job_label w n t = ''com.gitcommit.'' @ normalized_name w n @ ''.'' @ fmt_ymdhm t"
  by (simp add: job_label_def normalized_name_def remove_char_def)

lemma fmt_ymdhm_stamp: "minute_stamp t = minute_stamp t' \<Longrightarrow> fmt_ymdhm t = fmt_ymdhm t'"
  by (simp add: minute_stamp_def fmt_ymdhm_def)

lemma zero_pad_2: "zero_pad 2 n = [digit_char (n div 10), digit_char n]"
proof -
  have "zero_pad (Suc (Suc 0)) n = [digit_char (n div 10), digit_char n]"
    by simp
  then show ?thesis
    by (simp only: numeral_2_eq_2)
qed

lemma zero_pad_4:
  "zero_pad 4 n =
     [digit_char (n div 10 div 10 div 10), digit_char (n div 10 div 10), digit_char (n div 10),
      digit_char n]"
proof -
  have "zero_pad (Suc (Suc (Suc (Suc 0)))) n =
     [digit_char (n div 10 div 10 div 10), digit_char (n div 10 div 10), digit_char (n div 10),
      digit_char n]"
    by simp
  moreover have "(4::nat) = Suc (Suc (Suc (Suc 0)))"
    by simp
  ultimately show ?thesis
    by (simp only:)
qed

lemma length_zero_pad: "length (zero_pad k n) = k"
  by (induction k arbitrary: n) auto

lemma digit_char_inj:
  assumes "digit_char a = digit_char b"
  shows "a mod 10 = b mod 10"
proof -
  have "distinct ''0123456789''"
    by simp
  moreover have "a mod 10 < length ''0123456789''" "b mod 10 < length ''0123456789''"
    by simp_all
  ultimately show ?thesis
    using assms unfolding digit_char_def by (simp only: nth_eq_iff_index_eq)
qed

lemma zero_pad_inj: "zero_pad k a = zero_pad k b \<Longrightarrow> a mod 10 ^ k = b mod 10 ^ k"
proof (induction k arbitrary: a b)
  case 0
  show ?case by simp
next
  case (Suc k)
  from Suc.prems have "zero_pad k (a div 10) = zero_pad k (b div 10)"
    and "digit_char a = digit_char b"
    by simp_all
  then have "a div 10 mod 10 ^ k = b div 10 mod 10 ^ k" "a mod 10 = b mod 10"
    by (auto dest: Suc.IH digit_char_inj)
  then show ?case
    by (simp add: mod_mult2_eq)
qed

lemma zero_pad_eq:
  assumes "zero_pad k a = zero_pad k b" "a < 10 ^ k" "b < 10 ^ k"
  shows "a = b"
  using zero_pad_inj [OF assms(1)] assms(2,3) by simp

lemma fmt_ymdhm_inj:
  assumes "four_digit_year t1" "four_digit_year t2" "fmt_ymdhm t1 = fmt_ymdhm t2"
  shows "minute_stamp t1 = minute_stamp t2"
proof -
  from assms(3) have
    "zero_pad 4 (year t1) = zero_pad 4 (year t2)"
    "zero_pad 2 (month t1) = zero_pad 2 (month t2)"
    "zero_pad 2 (day t1) = zero_pad 2 (day t2)"
    "zero_pad 2 (hour t1) = zero_pad 2 (hour t2)"
    "zero_pad 2 (minute t1) = zero_pad 2 (minute t2)"
    by (simp_all add: fmt_ymdhm_def length_zero_pad)
  moreover from assms(1,2) have
    "year t1 < 10 ^ 4" "year t2 < 10 ^ 4" "month t1 < 10 ^ 2" "month t2 < 10 ^ 2"
    "day t1 < 10 ^ 2" "day t2 < 10 ^ 2" "hour t1 < 10 ^ 2" "hour t2 < 10 ^ 2"
    "minute t1 < 10 ^ 2" "minute t2 < 10 ^ 2"
    by (simp_all add: four_digit_year_def)
  ultimately show ?thesis
    by (auto simp: minute_stamp_def dest: zero_pad_eq)
qed

lemma length_fmt_ymdhm: "length (fmt_ymdhm t) = 12"
  by (simp add: fmt_ymdhm_def length_zero_pad)

lemma job_label_eq_iff:
  "job_label w n1 t1 = job_label w n2 t2 \<longleftrightarrow>
     normalized_name w n1 = normalized_name w n2 \<and> fmt_ymdhm t1 = fmt_ymdhm t2"
proof -
  have "(normalized_name w n1 @ ''.'') @ fmt_ymdhm t1 = (normalized_name w n2 @ ''.'') @ fmt_ymdhm t2
      \<longleftrightarrow> normalized_name w n1 @ ''.'' = normalized_name w n2 @ ''.'' \<and>
          fmt_ymdhm t1 = fmt_ymdhm t2"
    by (rule append_eq_append_conv) (simp add: length_fmt_ymdhm)
  then show ?thesis
    by (simp add: job_label_normalized)
qed

text \<open>
  C8. The label is \<open>com.gitcommit.\<close>, the normalised base name of the folder (lower
  case, spaces and hyphens removed), a dot and the target time as \<open>%Y%m%d%H%M\<close>, and
  it is the label that \<open>create_launchd_plist\<close> returns. It depends on nothing but the
  normalised name and the target time up to the minute, and it does depend on both:
  for target times with a year of four digits two labels are equal exactly when the
  normalised names are equal and the times agree up to the minute. So for two folders
  scheduled for the same minute the labels are equal exactly when the normalised names
  are.
\<close>

theorem job_label_collisions:
  "job_label w n1 t1 = ''com.gitcommit.'' @ normalized_name w n1 @ ''.'' @ fmt_ymdhm t1 \<and>
   (create_launchd_plist run folder_path repo_path t1 script_path w = (Inr (p, l), w') \<longrightarrow>
      l = job_label w (basename (abspath w folder_path)) t1) \<and>
   (normalized_name w n1 = normalized_name w n2 \<and> minute_stamp t1 = minute_stamp t2 \<longrightarrow>
      job_label w n1 t1 = job_label w n2 t2) \<and>
   (minute_stamp t1 = minute_stamp t2 \<longrightarrow>
      (job_label w n1 t1 = job_label w n2 t2 \<longleftrightarrow>
         normalized_name w n1 = normalized_name w n2)) \<and>
   (four_digit_year t1 \<and> four_digit_year t2 \<longrightarrow>
      (job_label w n1 t1 = job_label w n2 t2 \<longleftrightarrow>
         normalized_name w n1 = normalized_name w n2 \<and> minute_stamp t1 = minute_stamp t2))"
proof (intro conjI impI)
  show "job_label w n1 t1 = ''com.gitcommit.'' @ normalized_name w n1 @ ''.'' @ fmt_ymdhm t1"
    by (rule job_label_normalized)
next
  assume "create_launchd_plist run folder_path repo_path t1 script_path w = (Inr (p, l), w')"
  then show "l = job_label w (basename (abspath w folder_path)) t1"
    by (rule create_launchd_plist_InrD(1))
next
  assume "normalized_name w n1 = normalized_name w n2 \<and> minute_stamp t1 = minute_stamp t2"
  then show "job_label w n1 t1 = job_label w n2 t2"
    using fmt_ymdhm_stamp [of t1 t2] by (simp add: job_label_eq_iff)
next
  assume "minute_stamp t1 = minute_stamp t2"
  then have "fmt_ymdhm t1 = fmt_ymdhm t2"
    by (rule fmt_ymdhm_stamp)
  then show "job_label w n1 t1 = job_label w n2 t2 \<longleftrightarrow>
      normalized_name w n1 = normalized_name w n2"
    by (simp add: job_label_eq_iff)
next
  assume "four_digit_year t1 \<and> four_digit_year t2"
  then show "job_label w n1 t1 = job_label w n2 t2 \<longleftrightarrow>
      normalized_name w n1 = normalized_name w n2 \<and> minute_stamp t1 = minute_stamp t2"
    using fmt_ymdhm_inj [of t1 t2] fmt_ymdhm_stamp [of t1 t2]
    by (auto simp: job_label_eq_iff)
qed

theorem job_label_collisions_witness:
  "normalized_name machine ''My-Folder'' = normalized_name machine ''my folder'' \<and>
   minute_stamp noon = minute_stamp (noon\<lparr>second := 59\<rparr>) \<and>
   job_label machine ''My-Folder'' noon = ''com.gitcommit.myfolder.202401311200'' \<and>
   job_label machine ''my folder'' (noon\<lparr>second := 59\<rparr>) =
     ''com.gitcommit.myfolder.202401311200'' \<and>
   normalized_name machine ''My-Folder'' \<noteq> normalized_name machine ''MyFolder2'' \<and>
   job_label machine ''My-Folder'' noon \<noteq> job_label machine ''MyFolder2'' noon \<and>
   four_digit_year noon \<and> four_digit_year (noon\<lparr>minute := 1\<rparr>) \<and>
   minute_stamp noon \<noteq> minute_stamp (noon\<lparr>minute := 1\<rparr>) \<and>
   job_label machine ''My-Folder'' noon \<noteq> job_label machine ''My-Folder'' (noon\<lparr>minute := 1\<rparr>)"
proof -
  have n: "normalized_name machine ''My-Folder'' = ''myfolder''"
    "normalized_name machine ''my folder'' = ''myfolder''"
    "normalized_name machine ''MyFolder2'' = ''myfolder2''"
    by (simp_all add: normalized_name_def lower_def is_ascii_def lower_char_def)
  have m: "minute_stamp noon = minute_stamp (noon\<lparr>second := 59\<rparr>)"
    "minute_stamp noon \<noteq> minute_stamp (noon\<lparr>minute := 1\<rparr>)"
    by (simp_all add: minute_stamp_def noon_def)
  have y: "four_digit_year noon" "four_digit_year (noon\<lparr>minute := 1\<rparr>)"
    by (simp_all add: four_digit_year_def noon_def)
  have f: "fmt_ymdhm noon = ''202401311200''"
    by (simp add: fmt_ymdhm_def noon_def digit_char_def zero_pad_2 zero_pad_4)
  note T = job_label_collisions [of machine "''My-Folder''" noon]
  have a: "job_label machine ''My-Folder'' noon = ''com.gitcommit.myfolder.202401311200''"
    using T [THEN conjunct1] by (simp add: n f)
  have b: "job_label machine ''my folder'' (noon\<lparr>second := 59\<rparr>) =
      job_label machine ''My-Folder'' noon"
    using T [of _ _ _ _ _ _ _ "''my folder''" "noon\<lparr>second := 59\<rparr>",
        THEN conjunct2, THEN conjunct2, THEN conjunct1] n m
    by simp
  have c: "job_label machine ''My-Folder'' noon \<noteq> job_label machine ''MyFolder2'' noon"
    using T [of _ _ _ _ _ _ _ "''MyFolder2''" noon,
        THEN conjunct2, THEN conjunct2, THEN conjunct2, THEN conjunct1] n
    by simp
  have d: "job_label machine ''My-Folder'' noon \<noteq>
      job_label machine ''My-Folder'' (noon\<lparr>minute := 1\<rparr>)"
    using T [of _ _ _ _ _ _ _ "''My-Folder''" "noon\<lparr>minute := 1\<rparr>",
        THEN conjunct2, THEN conjunct2, THEN conjunct2, THEN conjunct2] y m
    by simp
  from a b c d n m y show ?thesis
    by simp
qed

lemma find_python3_git_sim:
  "find_python3 git_sim w =
     (Inr ''/usr/bin/python3'', w\<lparr>ext := ext w, calls := calls w @ [[''which'', ''python3'']]\<rparr>)"
  by (simp add: find_python3_def subprocess_run_def git_sim_def git_status_def git_diff_def
      strip_def is_space_def)

text \<open>
  C10, as amended. A registration has succeeded and left its job definition in the
  agents directory. A second registration, from the same script, whose folder and
  target time give the same label, succeeds as well provided the interpreter lookup
  raises nothing and \<open>plistlib.dump\<close> accepts the second job definition: it returns the
  same path and label, prints nothing, and the file at that path now holds the second
  job, the first one being overwritten.
\<close>

theorem create_launchd_plist_overwrites:
  assumes first: "create_launchd_plist run f1 r1 t1 sp w = (Inr (p1, l1), w1)"
    and same: "job_label w1 (basename (abspath w1 f2)) t2 = l1"
    and py: "find_python3 run w1 = (Inr py2, w1')"
    and dump: "plist_dump w1 (plist_data l1 py2 (abspath w1 sp) (abspath w1 f2)
                   (abspath w1 r2) (path_join (dirname (abspath w1 sp)) ''logs'')
                   (basename (abspath w1 f2)) t2) = None"
  shows "(\<exists>d1. node_at w1 (plist_path_of w1 l1) = Some (File (Some d1)) \<and>
               ProgramArguments d1 ! 2 = render (abspath w f1)) \<and>
         (\<exists>w2. create_launchd_plist run f2 r2 t2 sp w1 = (Inr (p1, l1), w2) \<and>
               node_at w2 (plist_path_of w1 l1) =
                 Some (File (Some (plist_data l1 py2 (abspath w1 sp) (abspath w1 f2)
                   (abspath w1 r2) (path_join (dirname (abspath w1 sp)) ''logs'')
                   (basename (abspath w1 f2)) t2))) \<and>
               stdout w2 = stdout w1 \<and> stderr w2 = stderr w1)"
proof -
  let ?L = "path_join (dirname (abspath w sp)) ''logs''"
  note D = create_launchd_plist_InrD [OF first]
  have hm: "plist_path_of w1 l1 = plist_path_of w l1" "launchd_dir w1 = launchd_dir w"
    using D(4) by (simp_all add: plist_path_of_def launchd_dir_def)
  have ab: "abspath w1 s = abspath w s" for s
    using D(3) by (rule abspath_cwd)
  from D(7) obtain d1 where d1: "node_at w1 (plist_path_of w1 l1) = Some (File (Some d1))"
    "ProgramArguments d1 ! 2 = render (abspath w f1)"
    unfolding hm by blast
  have nl: "\<forall>q\<in>set (ancestors (path_join (dirname (abspath w1 sp)) ''logs'')). \<not> is_file w1 q"
    using D(5) by (auto simp: ab is_file_def)
  have nd: "\<forall>q\<in>set (ancestors (launchd_dir w1)). \<not> is_file w1 q"
    using D(6) by (auto simp: hm is_file_def)
  have pp1: "node_at w1 (plist_path_of w1 (job_label w1 (basename (abspath w1 f2)) t2)) \<noteq> Some Dir"
    using d1(1) by (simp add: same)
  have pp2: "plist_path_of w1 (job_label w1 (basename (abspath w1 f2)) t2)
      \<notin> set (ancestors (path_join (dirname (abspath w1 sp)) ''logs''))"
  proof
    assume "plist_path_of w1 (job_label w1 (basename (abspath w1 f2)) t2)
      \<in> set (ancestors (path_join (dirname (abspath w1 sp)) ''logs''))"
    then have "plist_path_of w1 l1
        \<in> set (ancestors (path_join (dirname (abspath w1 sp)) ''logs''))"
      by (simp only: same)
    then have "plist_path_of w1 l1 \<in> set (ancestors ?L)"
      by (simp only: ab)
    with D(5) have "node_at w1 (plist_path_of w1 l1) = Some Dir"
      by blast
    with d1(1) show False
      by simp
  qed
  have ke: "kernel_error w1 (render (path_join (dirname (abspath w1 sp)) ''logs'')) = None"
    "kernel_error w1 (render (launchd_dir w1)) = None"
    "kernel_error w1 (render (plist_path_of w1 (job_label w1 (basename (abspath w1 f2)) t2))) = None"
    unfolding same using D(8,9) by (simp_all add: ab hm)
  from create_launchd_plist_writes [OF py nl nd pp1 pp2 ke, of r2]
  obtain w2 where "create_launchd_plist run f2 r2 t2 sp w1 = (Inr (render (plist_path_of w1 l1), l1), w2)"
    "node_at w2 (plist_path_of w1 l1) =
       Some (File (Some (plist_data l1 py2 (abspath w1 sp) (abspath w1 f2)
                   (abspath w1 r2) (path_join (dirname (abspath w1 sp)) ''logs'')
                   (basename (abspath w1 f2)) t2)))"
    "stdout w2 = stdout w1" "stderr w2 = stderr w1"
    unfolding same by (auto simp: dump)
  moreover have "p1 = render (plist_path_of w1 l1)"
    using D(2) by (simp add: hm)
  ultimately show ?thesis
    using d1 by blast
qed

lemma machine_no_files: "\<not> is_file machine q"
  by (simp add: is_file_def node_at_def machine_def)

lemma abspath_absolute: "abspath w (CHR ''/'' # s) = normpath (split_on CHR ''/'' (CHR ''/'' # s))"
  by (simp add: abspath_def isabs_def)

lemma machine_dump:
  assumes "dump_error w = dump_error machine"
  shows "plist_dump w d =
     (if \<exists>s\<in>set (plist_strings d). \<exists>c\<in>set s. control_char c then Some ValueError else None)"
  using assms by (simp add: plist_dump_def machine_def)

theorem create_launchd_plist_overwrites_witness:
  "fst (create_launchd_plist git_sim ''/repo/docs'' ''/repo'' noon
          ''/home/user/bin/git_commit_executor.py'' machine) =
     Inr (''/home/user/Library/LaunchAgents/com.gitcommit.docs.202401311200.plist'',
          ''com.gitcommit.docs.202401311200'') \<and>
   fst (create_launchd_plist git_sim ''/srv/Do-cs'' ''/srv'' (noon\<lparr>second := 30\<rparr>)
          ''/home/user/bin/git_commit_executor.py''
          (snd (create_launchd_plist git_sim ''/repo/docs'' ''/repo'' noon
                  ''/home/user/bin/git_commit_executor.py'' machine))) =
     Inr (''/home/user/Library/LaunchAgents/com.gitcommit.docs.202401311200.plist'',
          ''com.gitcommit.docs.202401311200'')"
proof -
  let ?sp = "''/home/user/bin/git_commit_executor.py''"
  let ?l = "''com.gitcommit.docs.202401311200''"
  let ?p = "''/home/user/Library/LaunchAgents/com.gitcommit.docs.202401311200.plist''"
  have b1: "basename (abspath machine ''/repo/docs'') = ''docs''"
    by (simp add: basename_def abspath_absolute normpath_def)
  have l1: "job_label machine ''docs'' noon = ?l"
    by (simp add: job_label_def lower_def is_ascii_def lower_char_def remove_char_def
        fmt_ymdhm_def noon_def digit_char_def zero_pad_2 zero_pad_4)
  have pp: "plist_path_of machine ?l =
      [''home'', ''user'', ''Library'', ''LaunchAgents'', ''com.gitcommit.docs.202401311200.plist'']"
    by (simp add: plist_path_of_def launchd_dir_def path_join_def machine_def)
  have rp: "render (plist_path_of machine ?l) = ?p"
    unfolding pp by (simp add: render_def)
  have lg: "path_join (dirname (abspath machine ?sp)) ''logs'' = [''home'', ''user'', ''bin'', ''logs'']"
    by (simp add: path_join_def dirname_def abspath_absolute normpath_def)
  have n1: "node_at machine (plist_path_of machine (job_label machine (basename (abspath machine ''/repo/docs'')) noon))
      \<noteq> Some Dir"
    unfolding b1 l1 pp by (simp add: node_at_def machine_def)
  have n2: "plist_path_of machine (job_label machine (basename (abspath machine ''/repo/docs'')) noon)
      \<notin> set (ancestors (path_join (dirname (abspath machine ?sp)) ''logs''))"
    unfolding b1 l1 pp lg by simp
  have ke: "kernel_error machine s = None" for s
    by (simp add: machine_def)
  have d1: "plist_dump machine (plist_data (job_label machine (basename (abspath machine ''/repo/docs'')) noon)
      ''/usr/bin/python3'' (abspath machine ?sp) (abspath machine ''/repo/docs'')
      (abspath machine ''/repo'') (path_join (dirname (abspath machine ?sp)) ''logs'')
      (basename (abspath machine ''/repo/docs'')) noon) = None"
    unfolding b1 l1 lg machine_dump [OF refl]
    by (simp add: plist_data_def plist_strings_def control_char_def render_def abspath_absolute
        normpath_def path_join_def fmt_ymd_hm_def noon_def digit_char_def zero_pad_2 zero_pad_4)
  from create_launchd_plist_writes [OF find_python3_git_sim _ _ n1 n2 ke ke ke, of "''/repo''"]
  obtain w1 where first:
    "create_launchd_plist git_sim ''/repo/docs'' ''/repo'' noon ?sp machine = (Inr (?p, ?l), w1)"
    unfolding d1 unfolding b1 l1 rp using machine_no_files by auto
  have de: "dump_error w1 = dump_error machine"
    using create_launchd_plist_InrD(8) [OF first] by simp
  have b2: "basename (abspath w1 ''/srv/Do-cs'') = ''Do-cs''"
    by (simp add: basename_def abspath_absolute normpath_def)
  have same: "job_label w1 (basename (abspath w1 ''/srv/Do-cs'')) (noon\<lparr>second := 30\<rparr>) = ?l"
    unfolding b2
    by (simp add: job_label_def lower_def is_ascii_def lower_char_def remove_char_def
        fmt_ymdhm_def noon_def digit_char_def zero_pad_2 zero_pad_4)
  have d2: "plist_dump w1 (plist_data ?l ''/usr/bin/python3'' (abspath w1 ?sp)
      (abspath w1 ''/srv/Do-cs'') (abspath w1 ''/srv'')
      (path_join (dirname (abspath w1 ?sp)) ''logs'')
      (basename (abspath w1 ''/srv/Do-cs'')) (noon\<lparr>second := 30\<rparr>)) = None"
    unfolding b2 machine_dump [OF de]
    by (simp add: plist_data_def plist_strings_def control_char_def render_def abspath_absolute
        normpath_def path_join_def dirname_def fmt_ymd_hm_def noon_def digit_char_def
        zero_pad_2 zero_pad_4)
  from create_launchd_plist_overwrites [OF first same find_python3_git_sim d2]
  obtain w2 where
    "create_launchd_plist git_sim ''/srv/Do-cs'' ''/srv'' (noon\<lparr>second := 30\<rparr>) ?sp w1 =
       (Inr (?p, ?l), w2)"
    by blast
  with first show ?thesis
    by simp
qed

text \<open>
  Without the proviso the second registration can fail after it has emptied the file of
  the first: the folder \<open>/srv/\x01/docs\<close> gives the label of \<open>/repo/docs\<close>, its path
  holds a control character, and \<open>plistlib.dump\<close> refuses it once \<open>open\<close> has truncated
  the file.
\<close>

theorem create_launchd_plist_overwrites_counterexample:
  "fst (create_launchd_plist git_sim ''/repo/docs'' ''/repo'' noon
          ''/home/user/bin/git_commit_executor.py'' machine) =
     Inr (''/home/user/Library/LaunchAgents/com.gitcommit.docs.202401311200.plist'',
          ''com.gitcommit.docs.202401311200'') \<and>
   job_label machine (basename (abspath machine (''/srv/'' @ [CHR 0x01] @ ''/docs''))) noon =
     ''com.gitcommit.docs.202401311200'' \<and>
   fst (create_launchd_plist git_sim (''/srv/'' @ [CHR 0x01] @ ''/docs'') ''/srv'' noon
          ''/home/user/bin/git_commit_executor.py''
          (snd (create_launchd_plist git_sim ''/repo/docs'' ''/repo'' noon
                  ''/home/user/bin/git_commit_executor.py'' machine))) =
     Inl ValueError \<and>
   node_at (snd (create_launchd_plist git_sim (''/srv/'' @ [CHR 0x01] @ ''/docs'') ''/srv'' noon
          ''/home/user/bin/git_commit_executor.py''
          (snd (create_launchd_plist git_sim ''/repo/docs'' ''/repo'' noon
                  ''/home/user/bin/git_commit_executor.py'' machine))))
     [''home'', ''user'', ''Library'', ''LaunchAgents'', ''com.gitcommit.docs.202401311200.plist''] =
     Some (File None)"
proof -
  let ?sp = "''/home/user/bin/git_commit_executor.py''"
  let ?l = "''com.gitcommit.docs.202401311200''"
  let ?p = "''/home/user/Library/LaunchAgents/com.gitcommit.docs.202401311200.plist''"
  let ?bad = "''/srv/'' @ [CHR 0x01] @ ''/docs''"
  let ?pp = "[''home'', ''user'', ''Library'', ''LaunchAgents'', ''com.gitcommit.docs.202401311200.plist'']"
  let ?lg = "[''home'', ''user'', ''bin'', ''logs'']"
  have b1: "basename (abspath w ''/repo/docs'') = ''docs''" for w :: "git_state world"
    by (simp add: basename_def abspath_absolute normpath_def)
  have l1: "job_label w ''docs'' noon = ?l" for w :: "git_state world"
    by (simp add: job_label_def lower_def is_ascii_def lower_char_def remove_char_def
        fmt_ymdhm_def noon_def digit_char_def zero_pad_2 zero_pad_4)
  have pp: "plist_path_of machine ?l = ?pp"
    by (simp add: plist_path_of_def launchd_dir_def path_join_def machine_def)
  have rp: "render (plist_path_of machine ?l) = ?p"
    unfolding pp by (simp add: render_def)
  have lg: "path_join (dirname (abspath w ?sp)) ''logs'' = ?lg" for w :: "git_state world"
    by (simp add: path_join_def dirname_def abspath_absolute normpath_def)
  have n1: "node_at machine (plist_path_of machine (job_label machine (basename (abspath machine ''/repo/docs'')) noon))
      \<noteq> Some Dir"
    unfolding b1 l1 pp by (simp add: node_at_def machine_def)
  have n2: "plist_path_of machine (job_label machine (basename (abspath machine ''/repo/docs'')) noon)
      \<notin> set (ancestors (path_join (dirname (abspath machine ?sp)) ''logs''))"
    unfolding b1 l1 pp lg by simp
  have ke: "kernel_error machine s = None" for s
    by (simp add: machine_def)
  have d1: "plist_dump machine (plist_data (job_label machine (basename (abspath machine ''/repo/docs'')) noon)
      ''/usr/bin/python3'' (abspath machine ?sp) (abspath machine ''/repo/docs'')
      (abspath machine ''/repo'') (path_join (dirname (abspath machine ?sp)) ''logs'')
      (basename (abspath machine ''/repo/docs'')) noon) = None"
    unfolding b1 l1 lg machine_dump [OF refl]
    by (simp add: plist_data_def plist_strings_def control_char_def render_def abspath_absolute
        normpath_def path_join_def fmt_ymd_hm_def noon_def digit_char_def zero_pad_2 zero_pad_4)
  from create_launchd_plist_writes [OF find_python3_git_sim _ _ n1 n2 ke ke ke, of "''/repo''"]
  obtain w1 where first:
    "create_launchd_plist git_sim ''/repo/docs'' ''/repo'' noon ?sp machine = (Inr (?p, ?l), w1)"
    unfolding d1 unfolding b1 l1 rp using machine_no_files by auto
  note D = create_launchd_plist_InrD [OF first]
  have de: "dump_error w1 = dump_error machine" and ke1: "kernel_error w1 s = None" for s
    using D(8) by (simp_all add: ke)
  have hm: "plist_path_of w1 l = plist_path_of machine l" for l
    using D(4) by (simp add: plist_path_of_def launchd_dir_def)
  have b2: "basename (abspath w ?bad) = ''docs''" for w :: "git_state world"
    by (simp add: basename_def abspath_absolute normpath_def)
  have nl: "\<forall>q\<in>set (ancestors (path_join (dirname (abspath w1 ?sp)) ''logs'')). \<not> is_file w1 q"
    using D(5) by (auto simp: lg is_file_def)
  have nd: "\<forall>q\<in>set (ancestors (launchd_dir w1)). \<not> is_file w1 q"
    using D(4,6) by (auto simp: launchd_dir_def is_file_def)
  from D(7) obtain d where d: "node_at w1 ?pp = Some (File (Some d))"
    unfolding pp by blast
  have m1: "node_at w1 (plist_path_of w1 (job_label w1 (basename (abspath w1 ?bad)) noon)) \<noteq> Some Dir"
    unfolding b2 l1 hm pp using d by simp
  have m2: "plist_path_of w1 (job_label w1 (basename (abspath w1 ?bad)) noon)
      \<notin> set (ancestors (path_join (dirname (abspath w1 ?sp)) ''logs''))"
    unfolding b2 l1 hm pp lg by simp
  have d2: "plist_dump w1 (plist_data (job_label w1 (basename (abspath w1 ?bad)) noon)
      ''/usr/bin/python3'' (abspath w1 ?sp) (abspath w1 ?bad)
      (abspath w1 ''/srv'') (path_join (dirname (abspath w1 ?sp)) ''logs'')
      (basename (abspath w1 ?bad)) noon) = Some ValueError"
    unfolding machine_dump [OF de]
    by (simp add: plist_data_def plist_strings_def control_char_def render_def abspath_absolute
        normpath_def)
  from create_launchd_plist_writes [OF find_python3_git_sim nl nd m1 m2 ke1 ke1 ke1, of "''/srv''"]
  obtain w2 where second:
    "create_launchd_plist git_sim ?bad ''/srv'' noon ?sp w1 = (Inl ValueError, w2)"
    "node_at w2 ?pp = Some (File None)"
    unfolding d2 unfolding b2 l1 hm pp by auto
  from first second b2 [of machine] l1 [of machine] show ?thesis
    by simp
qed

end
